theory Spec2Isabelle
  imports Main "HOL-Library.AList"
begin

section \<open>Values of the scan record store\<close>

text \<open>
  The store of \<^verbatim>\<open>main.py\<close> keeps plain Python dictionaries in the module-level list
  \<^verbatim>\<open>scans_db\<close> and mirrors that list to the file \<^verbatim>\<open>scans_db.json\<close>. Every value
  that reaches the list is JSON-native. A dictionary is an association list with the
  keys in insertion order; a float is identified by its \<^verbatim>\<open>repr\<close>.
\<close>

datatype json =
    JNull
  | JBool bool
  | JInt int
  | JFloat string
  | JStr string
  | JArr "json list"
  | JObj "(string \<times> json) list"

type_synonym dict = "(string \<times> json) list"

text \<open>\<^verbatim>\<open>d.get(k)\<close>: the value under \<open>k\<close>, and \<^verbatim>\<open>None\<close> when the key is missing.\<close>

definition py_get :: "dict \<Rightarrow> string \<Rightarrow> json" where
  "py_get d k = (case map_of d k of None \<Rightarrow> JNull | Some v \<Rightarrow> v)"

text \<open>\<^verbatim>\<open>k in d\<close>.\<close>

definition py_in :: "string \<Rightarrow> dict \<Rightarrow> bool" where
  "py_in k d = (map_of d k \<noteq> None)"

text \<open>
  The exceptions that leave the handlers. \<open>HTTPException\<close> carries the status code and
  the detail; \<open>OSError\<close> the message of a failed file operation; \<open>ValueError\<close> is what
  \<^verbatim>\<open>json.load\<close> raises on a file it cannot decode (\<^verbatim>\<open>JSONDecodeError\<close> and
  \<^verbatim>\<open>UnicodeDecodeError\<close> are both subclasses of it); \<open>KeyError\<close> names the missing key.
\<close>

datatype error =
    HTTPException nat string
  | OSError string
  | ValueError
  | KeyError string

section \<open>Listing\<close>

text \<open>
  \<^verbatim>\<open>
  async def get_scans(patient_id: Optional[str] = None):
      if patient_id:
          return [scan for scan in scans_db if scan.get('patient_id') == patient_id]
      return scans_db
  \<close>
  The guard is Python truthiness: \<^verbatim>\<open>None\<close> and the empty string are both false.
  A string equals only a string, so the comparison holds exactly when the record has
  the string \<open>patient_id\<close> under the key.
\<close>

definition get_scans :: "dict list \<Rightarrow> string option \<Rightarrow> dict list" where
  "get_scans scans_db patient_id =
     (case patient_id of
        None \<Rightarrow> scans_db
      | Some p \<Rightarrow>
          if p \<noteq> [] then filter (\<lambda>scan. py_get scan ''patient_id'' = JStr p) scans_db
          else scans_db)"


section \<open>Files and the snapshot\<close>

text \<open>
  The file system is a map from paths to contents. What a write does is decided by the
  environment (disk full, permission denied), so each write takes its outcome as an
  argument: \<^verbatim>\<open>open(path, 'w')\<close> either fails and leaves the file as it was, or
  truncates it; the writes that follow either all succeed, or fail after some prefix of
  the data has reached the file.
\<close>

type_synonym filesystem = "string \<rightharpoonup> string"

datatype write_outcome = WriteOk | OpenFails string | WriteFails nat string

fun write_file ::
  "write_outcome \<Rightarrow> string \<Rightarrow> string \<Rightarrow> filesystem \<Rightarrow> (error + unit) \<times> filesystem" where
  "write_file WriteOk path data fs = (Inr (), fs(path \<mapsto> data))"
| "write_file (OpenFails msg) path data fs = (Inl (OSError msg), fs)"
| "write_file (WriteFails n msg) path data fs = (Inl (OSError msg), fs(path \<mapsto> take n data))"

text \<open>
  The state of the process: the files and the module-level list \<^verbatim>\<open>scans_db\<close>.
\<close>

record world =
  files :: filesystem
  scans_db :: "dict list"

text \<open>The list of dictionaries as the value \<^verbatim>\<open>json.dump\<close> receives.\<close>

definition json_of_scans :: "dict list \<Rightarrow> json" where
  "json_of_scans db = JArr (map JObj db)"

text \<open>
  \<^verbatim>\<open>
  with open('scans_db.json', 'w') as f:
      json.dump(scans_db, f)
  \<close>
  The two statements close both \<^verbatim>\<open>save_scan_to_db\<close> and \<^verbatim>\<open>delete_scan\<close>.
  \<^verbatim>\<open>json.dump\<close> and \<^verbatim>\<open>json.load\<close> belong to the Python library, not to the
  repository: the encoder is the parameter \<open>dumps\<close>, the decoder the parameter \<open>loads\<close>,
  which is \<open>None\<close> on a text \<^verbatim>\<open>json.load\<close> rejects.
\<close>

definition dump_scans ::
  "(json \<Rightarrow> string) \<Rightarrow> write_outcome \<Rightarrow> dict list \<Rightarrow> filesystem \<Rightarrow> (error + unit) \<times> filesystem" where
  "dump_scans dumps io db fs = write_file io ''scans_db.json'' (dumps (json_of_scans db)) fs"

text \<open>
  \<^verbatim>\<open>
  def save_scan_to_db(scan_data: dict):
      scans_db.append(scan_data)
      with open('scans_db.json', 'w') as f:
          json.dump(scans_db, f)
  \<close>
\<close>

definition save_scan_to_db ::
  "(json \<Rightarrow> string) \<Rightarrow> write_outcome \<Rightarrow> dict \<Rightarrow> world \<Rightarrow> (error + unit) \<times> world" where
  "save_scan_to_db dumps io scan_data w =
     (let w1 = w\<lparr>scans_db := scans_db w @ [scan_data]\<rparr>;
          (r, fs) = dump_scans dumps io (scans_db w1) (files w1)
      in (r, w1\<lparr>files := fs\<rparr>))"

text \<open>
  \<^verbatim>\<open>
  def load_scans_from_db():
      if os.path.exists('scans_db.json'):
          with open('scans_db.json', 'r') as f:
              return json.load(f)
      return []
  \<close>
  The result is whatever value the file holds; line 60 binds \<^verbatim>\<open>scans_db\<close> to it at
  import time, so an exception here ends the start of the process.
\<close>

definition load_scans_from_db :: "(string \<Rightarrow> json option) \<Rightarrow> filesystem \<Rightarrow> error + json" where
  "load_scans_from_db loads fs =
     (case fs ''scans_db.json'' of
        None \<Rightarrow> Inr (JArr [])
      | Some text \<Rightarrow> (case loads text of None \<Rightarrow> Inl ValueError | Some v \<Rightarrow> Inr v))"

section \<open>Lookup and deletion\<close>

definition base_url :: string where
  "base_url = ''http://your-server-ip:8000''"

text \<open>
  A replacement field of an f-string: a string stands for itself, any other value for
  its \<^verbatim>\<open>str()\<close>, which is the parameter \<open>str_of\<close>.
\<close>

definition format_value :: "(json \<Rightarrow> string) \<Rightarrow> json \<Rightarrow> string" where
  "format_value str_of v = (case v of JStr s \<Rightarrow> s | _ \<Rightarrow> str_of v)"

definition upload_url :: "(json \<Rightarrow> string) \<Rightarrow> json \<Rightarrow> json" where
  "upload_url str_of v = JStr (base_url @ ''/uploads/'' @ format_value str_of v)"

text \<open>
  Lines 94 to 99, on the copy \<^verbatim>\<open>scan_data\<close>: a subscript on a missing key raises
  \<^verbatim>\<open>KeyError\<close>; an item assignment replaces the value of a key in place and appends
  a new key.
\<close>

definition add_urls :: "(json \<Rightarrow> string) \<Rightarrow> dict \<Rightarrow> error + dict" where
  "add_urls str_of scan_data =
     (case map_of scan_data ''pre_op_path'' of
        None \<Rightarrow> Inl (KeyError ''pre_op_path'')
      | Some p \<Rightarrow>
          let scan_data1 = AList.update ''pre_op_url'' (upload_url str_of p) scan_data in
          (case map_of scan_data1 ''during_op_path'' of
             None \<Rightarrow> Inl (KeyError ''during_op_path'')
           | Some q \<Rightarrow>
               let scan_data2 = AList.update ''during_op_url'' (upload_url str_of q) scan_data1 in
               Inr (if py_in ''result_path'' scan_data2
                    then AList.update ''result_url''
                           (upload_url str_of (py_get scan_data2 ''result_path'')) scan_data2
                    else scan_data2)))"

text \<open>
  \<^verbatim>\<open>
  async def get_scan(scan_id: str):
      for scan in scans_db:
          if scan.get('id') == scan_id:
              scan_data = scan.copy()
              ...
              return scan_data
      raise HTTPException(status_code=404, detail="Scan not found")
  \<close>
  On values: the copy is the dictionary itself. The version on an explicit store of
  objects, where the copy matters, is \<open>get_scan_store\<close> below.
\<close>

fun get_scan :: "(json \<Rightarrow> string) \<Rightarrow> dict list \<Rightarrow> string \<Rightarrow> error + dict" where
  "get_scan str_of [] scan_id = Inl (HTTPException 404 ''Scan not found'')"
| "get_scan str_of (scan # rest) scan_id =
     (if py_get scan ''id'' = JStr scan_id then add_urls str_of scan
      else get_scan str_of rest scan_id)"

text \<open>
  \<^verbatim>\<open>
  async def delete_scan(scan_id: str):
      global scans_db
      initial_length = len(scans_db)
      scans_db = [scan for scan in scans_db if scan.get('id') != scan_id]
      if len(scans_db) == initial_length:
          raise HTTPException(status_code=404, detail="Scan not found")
      with open('scans_db.json', 'w') as f:
          json.dump(scans_db, f)
      return {"status": "success", "message": "Scan deleted"}
  \<close>
\<close>

definition delete_scan ::
  "(json \<Rightarrow> string) \<Rightarrow> write_outcome \<Rightarrow> string \<Rightarrow> world \<Rightarrow> (error + dict) \<times> world" where
  "delete_scan dumps io scan_id w =
     (let initial_length = length (scans_db w);
          w1 = w\<lparr>scans_db := filter (\<lambda>scan. py_get scan ''id'' \<noteq> JStr scan_id) (scans_db w)\<rparr>
      in if length (scans_db w1) = initial_length
         then (Inl (HTTPException 404 ''Scan not found''), w1)
         else (case dump_scans dumps io (scans_db w1) (files w1) of
                 (Inl e, fs) \<Rightarrow> (Inl e, w1\<lparr>files := fs\<rparr>)
               | (Inr u, fs) \<Rightarrow>
                   (Inr [(''status'', JStr ''success''), (''message'', JStr ''Scan deleted'')],
                    w1\<lparr>files := fs\<rparr>)))"

section \<open>Lookup on a store of objects\<close>

text \<open>
  \<^verbatim>\<open>get_scan\<close> assigns to items of \<^verbatim>\<open>scan_data\<close>; whether that touches the record
  in \<^verbatim>\<open>scans_db\<close> depends on \<^verbatim>\<open>scan.copy()\<close>. Here the dictionaries are objects
  in a store, a reference is an index into it, \<^verbatim>\<open>scans_db\<close> is a list of references,
  \<^verbatim>\<open>copy\<close> allocates a new object with the same items (a shallow copy), and an item
  assignment changes the object a reference points to. Python references never dangle:
  the references of \<^verbatim>\<open>scans_db\<close> are below the length of the store.
\<close>

type_synonym store = "dict list"

definition setitem :: "nat \<Rightarrow> string \<Rightarrow> json \<Rightarrow> store \<Rightarrow> store" where
  "setitem a k v h = h[a := AList.update k v (h ! a)]"

definition add_urls_store :: "(json \<Rightarrow> string) \<Rightarrow> nat \<Rightarrow> store \<Rightarrow> (error + unit) \<times> store" where
  "add_urls_store str_of scan_data h =
     (case map_of (h ! scan_data) ''pre_op_path'' of
        None \<Rightarrow> (Inl (KeyError ''pre_op_path''), h)
      | Some p \<Rightarrow>
          let h1 = setitem scan_data ''pre_op_url'' (upload_url str_of p) h in
          (case map_of (h1 ! scan_data) ''during_op_path'' of
             None \<Rightarrow> (Inl (KeyError ''during_op_path''), h1)
           | Some q \<Rightarrow>
               let h2 = setitem scan_data ''during_op_url'' (upload_url str_of q) h1 in
               (Inr (),
                if py_in ''result_path'' (h2 ! scan_data)
                then setitem scan_data ''result_url''
                       (upload_url str_of (py_get (h2 ! scan_data) ''result_path'')) h2
                else h2)))"

fun get_scan_store ::
  "(json \<Rightarrow> string) \<Rightarrow> store \<Rightarrow> nat list \<Rightarrow> string \<Rightarrow> (error + nat) \<times> store" where
  "get_scan_store str_of h [] scan_id = (Inl (HTTPException 404 ''Scan not found''), h)"
| "get_scan_store str_of h (scan # rest) scan_id =
     (if py_get (h ! scan) ''id'' = JStr scan_id
      then (let scan_data = length h;
                h1 = h @ [h ! scan]
            in case add_urls_store str_of scan_data h1 of
                 (Inl e, h2) \<Rightarrow> (Inl e, h2)
               | (Inr u, h2) \<Rightarrow> (Inr scan_data, h2))
      else get_scan_store str_of h rest scan_id)"

section \<open>Creation\<close>

text \<open>
  \<^verbatim>\<open>os.path.splitext\<close> on a POSIX system (\<^verbatim>\<open>genericpath._splitext\<close> with the
  separator \<^verbatim>\<open>/\<close>):
  \<^verbatim>\<open>
  sepIndex = p.rfind(sep)
  dotIndex = p.rfind(extsep)
  if dotIndex > sepIndex:
      # skip all leading dots
      filenameIndex = sepIndex + 1
      while filenameIndex < dotIndex:
          if p[filenameIndex:filenameIndex+1] != extsep:
              return p[:dotIndex], p[dotIndex:]
          filenameIndex += 1
  return p, p[:0]
  \<close>
\<close>

fun rfind :: "char \<Rightarrow> string \<Rightarrow> int" where
  "rfind c [] = - 1"
| "rfind c (x # xs) =
     (let r = rfind c xs in if 0 \<le> r then r + 1 else if x = c then 0 else - 1)"

function splitext_loop :: "string \<Rightarrow> nat \<Rightarrow> nat \<Rightarrow> string \<times> string" where
  "splitext_loop p filenameIndex dotIndex =
     (if filenameIndex < dotIndex
      then (if take 1 (drop filenameIndex p) \<noteq> ''.''
            then (take dotIndex p, drop dotIndex p)
            else splitext_loop p (filenameIndex + 1) dotIndex)
      else (p, []))"
  by pat_completeness auto
termination
  by (relation "measure (\<lambda>(p, filenameIndex, dotIndex). dotIndex - filenameIndex)") auto

declare splitext_loop.simps [simp del]

definition splitext :: "string \<Rightarrow> string \<times> string" where
  "splitext p =
     (let sepIndex = rfind (CHR ''/'') p;
          dotIndex = rfind (CHR ''.'') p
      in if dotIndex > sepIndex
         then splitext_loop p (nat (sepIndex + 1)) (nat dotIndex)
         else (p, []))"

text \<open>
  A \<^verbatim>\<open>pathlib\<close> path is the list of its components; \<^verbatim>\<open>str\<close> joins them with the
  separator. \<^verbatim>\<open>relative_to\<close> strips the components of the other path and raises
  \<^verbatim>\<open>ValueError\<close> when they are not a prefix. The components joined below are the
  identifier \<^verbatim>\<open>uuid4\<close> gives and a file name that starts with a letter, neither of
  which holds a separator.
\<close>

type_synonym path = "string list"

fun path_str :: "path \<Rightarrow> string" where
  "path_str [] = ''.''"
| "path_str [a] = a"
| "path_str (a # b # r) = a @ ''/'' @ path_str (b # r)"

definition relative_to :: "path \<Rightarrow> path \<Rightarrow> error + path" where
  "relative_to p base =
     (if take (length base) p = base then Inr (drop (length base) p) else Inl ValueError)"

definition UPLOAD_DIR :: path where
  "UPLOAD_DIR = [''uploads'']"

text \<open>An \<^verbatim>\<open>UploadFile\<close>: the file name the client sent, if any, and the bytes.\<close>

record upload =
  filename :: "string option"
  content :: string

text \<open>
  What a request to create gets from outside the program: the identifier of
  \<^verbatim>\<open>uuid.uuid4()\<close>, the clock, and the outcome of each file operation (\<open>None\<close> for
  \<^verbatim>\<open>mkdir\<close> and \<^verbatim>\<open>unlink\<close> is success, \<open>Some msg\<close> an \<^verbatim>\<open>OSError\<close>).
\<close>

record environment =
  uuid4 :: string
  utc_now :: string
  mkdir_io :: "string option"
  pre_op_io :: write_outcome
  during_op_io :: write_outcome
  result_io :: write_outcome
  db_io :: write_outcome
  unlink_pre_op_io :: "string option"
  unlink_during_op_io :: "string option"

text \<open>
  \<^verbatim>\<open>str(e)\<close> for the exceptions above. Inside the \<^verbatim>\<open>try\<close> block of
  \<^verbatim>\<open>analyze_occlusion\<close> only \<open>OSError\<close> and \<open>ValueError\<close> arise.
\<close>

fun error_str :: "error \<Rightarrow> string" where
  "error_str (OSError msg) = msg"
| "error_str (HTTPException code detail) = detail"
| "error_str ValueError = []"
| "error_str (KeyError k) = [CHR 0x27] @ k @ [CHR 0x27]"

definition analysis_error :: "error \<Rightarrow> error" where
  "analysis_error e = HTTPException 500 (''An error occurred during analysis: '' @ error_str e)"

text \<open>The mock result of lines 158 to 173.\<close>

definition analysis_results :: "string \<Rightarrow> dict" where
  "analysis_results scan_id =
     [(''status'', JStr ''success''),
      (''scan_id'', JStr scan_id),
      (''analysis'', JObj
         [(''occlusion_score'', JFloat ''0.85''),
          (''alignment_score'', JFloat ''0.92''),
          (''findings'', JArr
             [JStr ''Good overall occlusion'',
              JStr ''Slight misalignment on lower right molars'']),
          (''recommendations'', JArr
             [JStr ''Consider minor adjustment to lower right molars'',
              JStr ''Schedule follow-up in 2 weeks''])])]"

text \<open>
  \<^verbatim>\<open>path.unlink()\<close> under the guard \<^verbatim>\<open>path.exists()\<close>.
\<close>

definition unlink_if_exists ::
  "string option \<Rightarrow> string \<Rightarrow> filesystem \<Rightarrow> (error + unit) \<times> filesystem" where
  "unlink_if_exists io p fs =
     (if fs p \<noteq> None
      then (case io of None \<Rightarrow> (Inr (), fs(p := None)) | Some msg \<Rightarrow> (Inl (OSError msg), fs))
      else (Inr (), fs))"

text \<open>
  The \<^verbatim>\<open>except\<close> clause once both paths are local variables (from line 147 on):
  \<^verbatim>\<open>
  except Exception as e:
      if 'pre_op_path' in locals() and pre_op_path.exists():
          pre_op_path.unlink()
      if 'during_op_path' in locals() and during_op_path.exists():
          during_op_path.unlink()
      raise HTTPException(status_code=500,
                          detail=f"An error occurred during analysis: {str(e)}")
  \<close>
  An \<^verbatim>\<open>unlink\<close> that fails raises from inside the handler and skips the rest of it.
\<close>

definition cleanup ::
  "environment \<Rightarrow> path \<Rightarrow> path \<Rightarrow> error \<Rightarrow> world \<Rightarrow> (error + dict) \<times> world" where
  "cleanup env pre_op_path during_op_path e w =
     (case unlink_if_exists (unlink_pre_op_io env) (path_str pre_op_path) (files w) of
        (Inl e1, fs1) \<Rightarrow> (Inl e1, w\<lparr>files := fs1\<rparr>)
      | (Inr u, fs1) \<Rightarrow>
          (case unlink_if_exists (unlink_during_op_io env) (path_str during_op_path) fs1 of
             (Inl e2, fs2) \<Rightarrow> (Inl e2, w\<lparr>files := fs2\<rparr>)
           | (Inr u, fs2) \<Rightarrow> (Inl (analysis_error e), w\<lparr>files := fs2\<rparr>)))"

text \<open>The extension of lines 140 and 141: the guard is the truthiness of the file name.\<close>

definition upload_ext :: "upload \<Rightarrow> string" where
  "upload_ext upload_file =
     (case filename upload_file of
        None \<Rightarrow> ''.jpg''
      | Some n \<Rightarrow> if n \<noteq> [] then snd (splitext n) else ''.jpg'')"

text \<open>The record of lines 182 to 190, once the three relative paths are known.\<close>

definition scan_record :: "string \<Rightarrow> string \<Rightarrow> string \<Rightarrow> string \<Rightarrow> string \<Rightarrow> string \<Rightarrow> dict" where
  "scan_record scan_id patient_id pre_op during_op result created_at =
     [(''id'', JStr scan_id),
      (''patient_id'', JStr patient_id),
      (''pre_op_path'', JStr pre_op),
      (''during_op_path'', JStr during_op),
      (''result_path'', JStr result),
      (''created_at'', JStr created_at),
      (''analysis_results'', JObj (analysis_results scan_id))]"

text \<open>
  \<^verbatim>\<open>analyze_occlusion\<close>, lines 131 to 207. A failure of \<^verbatim>\<open>mkdir\<close> reaches the
  handler before \<^verbatim>\<open>pre_op_path\<close> is bound, so nothing is unlinked.
\<close>

definition analyze_occlusion ::
  "(json \<Rightarrow> string) \<Rightarrow> environment \<Rightarrow> upload \<Rightarrow> upload \<Rightarrow> string \<Rightarrow> world
     \<Rightarrow> (error + dict) \<times> world" where
  "analyze_occlusion dumps env pre_op_image during_op_image patient_id w =
     (let scan_id = uuid4 env;
          scan_dir = UPLOAD_DIR @ [scan_id]
      in case mkdir_io env of
           Some msg \<Rightarrow> (Inl (analysis_error (OSError msg)), w)
         | None \<Rightarrow>
     (let pre_op_ext = upload_ext pre_op_image;
          during_op_ext = upload_ext during_op_image;
          pre_op_filename = ''pre_op'' @ pre_op_ext;
          during_op_filename = ''during_op'' @ during_op_ext;
          pre_op_path = scan_dir @ [pre_op_filename];
          during_op_path = scan_dir @ [during_op_filename]
      in
     (case write_file (pre_op_io env) (path_str pre_op_path)
             (content pre_op_image) (files w) of
        (Inl e, fs1) \<Rightarrow> cleanup env pre_op_path during_op_path e (w\<lparr>files := fs1\<rparr>)
      | (Inr u, fs1) \<Rightarrow>
     (case write_file (during_op_io env) (path_str during_op_path)
             (content during_op_image) fs1 of
        (Inl e, fs2) \<Rightarrow> cleanup env pre_op_path during_op_path e (w\<lparr>files := fs2\<rparr>)
      | (Inr u, fs2) \<Rightarrow>
     (let results = analysis_results scan_id;
          result_path = scan_dir @ [''analysis_results.json'']
      in
     (case write_file (result_io env) (path_str result_path) (dumps (JObj results)) fs2 of
        (Inl e, fs3) \<Rightarrow> cleanup env pre_op_path during_op_path e (w\<lparr>files := fs3\<rparr>)
      | (Inr u, fs3) \<Rightarrow>
     (case relative_to pre_op_path UPLOAD_DIR of
        Inl e \<Rightarrow> cleanup env pre_op_path during_op_path e (w\<lparr>files := fs3\<rparr>)
      | Inr pre_op_rel \<Rightarrow>
     (case relative_to during_op_path UPLOAD_DIR of
        Inl e \<Rightarrow> cleanup env pre_op_path during_op_path e (w\<lparr>files := fs3\<rparr>)
      | Inr during_op_rel \<Rightarrow>
     (case relative_to result_path UPLOAD_DIR of
        Inl e \<Rightarrow> cleanup env pre_op_path during_op_path e (w\<lparr>files := fs3\<rparr>)
      | Inr result_rel \<Rightarrow>
     (let scan_data = scan_record scan_id patient_id (path_str pre_op_rel)
                        (path_str during_op_rel) (path_str result_rel) (utc_now env)
      in
     (case save_scan_to_db dumps (db_io env) scan_data (w\<lparr>files := fs3\<rparr>) of
        (Inl e, w4) \<Rightarrow> cleanup env pre_op_path during_op_path e w4
      | (Inr u, w4) \<Rightarrow> (Inr results, w4))))))))))))"

text \<open>
  Names for what a request to create leaves behind: the path of an upload relative to
  the upload directory, the file it is written to, and the record of lines 182 to 190.
\<close>

definition stored_path :: "environment \<Rightarrow> string \<Rightarrow> upload \<Rightarrow> path" where
  "stored_path env logical_name upload_file =
     [uuid4 env, logical_name @ upload_ext upload_file]"

definition upload_file_path :: "environment \<Rightarrow> string \<Rightarrow> upload \<Rightarrow> string" where
  "upload_file_path env logical_name upload_file =
     path_str (UPLOAD_DIR @ stored_path env logical_name upload_file)"

definition new_record :: "environment \<Rightarrow> upload \<Rightarrow> upload \<Rightarrow> string \<Rightarrow> dict" where
  "new_record env pre_op_image during_op_image patient_id =
     scan_record (uuid4 env) patient_id
       (path_str (stored_path env ''pre_op'' pre_op_image))
       (path_str (stored_path env ''during_op'' during_op_image))
       (path_str [uuid4 env, ''analysis_results.json''])
       (utc_now env)"

section \<open>The JSON text of the snapshot\<close>

text \<open>
  What \<^verbatim>\<open>json.dump(scans_db, f)\<close> writes and what \<^verbatim>\<open>json.load(f)\<close> reads, as
  Python's \<^verbatim>\<open>json\<close> module does with the defaults both calls take: the encoder
  and the decoder that the parameters \<open>dumps\<close> and \<open>loads\<close> stand for. A string of the
  model holds code points below 256. A float is identified by its \<^verbatim>\<open>repr\<close>, so the
  decoder has a parameter \<open>fr\<close>: the function that takes the text of a number literal to
  the \<^verbatim>\<open>repr\<close> of the float it denotes, \<^verbatim>\<open>repr(float(text))\<close>.
\<close>
































section \<open>Lemmas on the operations\<close>

lemma get_scan_absent:
  "\<forall>scan\<in>set db. py_get scan ''id'' \<noteq> JStr scan_id
     \<Longrightarrow> get_scan str_of db scan_id = Inl (HTTPException 404 ''Scan not found'')"
  by (induction db) simp_all

lemma write_file_Inr:
  "write_file io p d fs = (Inr u, fs') \<longleftrightarrow> io = WriteOk \<and> fs' = fs(p \<mapsto> d)"
  by (cases io) auto

lemma cleanup_Inr: "cleanup env a b e w = (Inr r, w') \<longleftrightarrow> False"
  by (auto simp: cleanup_def split: prod.splits sum.splits)

lemma cleanup_scans_db: "scans_db (snd (cleanup env a b e w)) = scans_db w"
  by (auto simp: cleanup_def split: prod.splits sum.splits)

lemma relative_to_uploads: "relative_to (UPLOAD_DIR @ p) UPLOAD_DIR = Inr p"
  by (simp add: relative_to_def)

lemma path_str_uploads:
  "path_str (UPLOAD_DIR @ [a, b]) = ''uploads/'' @ a @ ''/'' @ b"
  by (simp add: UPLOAD_DIR_def)

lemma save_scan_to_db_Inr:
  "save_scan_to_db dumps io scan_data w = (Inr u, w') \<longleftrightarrow>
     io = WriteOk
     \<and> w' = w\<lparr>scans_db := scans_db w @ [scan_data],
              files := (files w)(''scans_db.json'' \<mapsto>
                         dumps (json_of_scans (scans_db w @ [scan_data])))\<rparr>"
  by (cases io) (auto simp: save_scan_to_db_def dump_scans_def Let_def)

text \<open>
  \<open>analyze_occlusion\<close> as its sequence of steps, with the paths named and the three
  calls of \<open>relative_to\<close>, which cannot fail under \<open>UPLOAD_DIR\<close>, evaluated.
\<close>

lemma analyze_occlusion_steps:
  "analyze_occlusion dumps env pre_op_image during_op_image patient_id w =
     (case mkdir_io env of
        Some msg \<Rightarrow> (Inl (analysis_error (OSError msg)), w)
      | None \<Rightarrow>
     (case write_file (pre_op_io env) (upload_file_path env ''pre_op'' pre_op_image)
             (content pre_op_image) (files w) of
        (Inl e, fs1) \<Rightarrow>
          cleanup env (UPLOAD_DIR @ stored_path env ''pre_op'' pre_op_image)
            (UPLOAD_DIR @ stored_path env ''during_op'' during_op_image) e (w\<lparr>files := fs1\<rparr>)
      | (Inr u, fs1) \<Rightarrow>
     (case write_file (during_op_io env) (upload_file_path env ''during_op'' during_op_image)
             (content during_op_image) fs1 of
        (Inl e, fs2) \<Rightarrow>
          cleanup env (UPLOAD_DIR @ stored_path env ''pre_op'' pre_op_image)
            (UPLOAD_DIR @ stored_path env ''during_op'' during_op_image) e (w\<lparr>files := fs2\<rparr>)
      | (Inr u, fs2) \<Rightarrow>
     (case write_file (result_io env)
             (path_str (UPLOAD_DIR @ [uuid4 env, ''analysis_results.json'']))
             (dumps (JObj (analysis_results (uuid4 env)))) fs2 of
        (Inl e, fs3) \<Rightarrow>
          cleanup env (UPLOAD_DIR @ stored_path env ''pre_op'' pre_op_image)
            (UPLOAD_DIR @ stored_path env ''during_op'' during_op_image) e (w\<lparr>files := fs3\<rparr>)
      | (Inr u, fs3) \<Rightarrow>
     (case save_scan_to_db dumps (db_io env)
             (new_record env pre_op_image during_op_image patient_id) (w\<lparr>files := fs3\<rparr>) of
        (Inl e, w4) \<Rightarrow>
          cleanup env (UPLOAD_DIR @ stored_path env ''pre_op'' pre_op_image)
            (UPLOAD_DIR @ stored_path env ''during_op'' during_op_image) e w4
      | (Inr u, w4) \<Rightarrow> (Inr (analysis_results (uuid4 env)), w4))))))"
  unfolding analyze_occlusion_def Let_def stored_path_def new_record_def upload_file_path_def
  by (simp add: relative_to_uploads [of "[a, b]" for a b, simplified]
        cong: option.case_cong prod.case_cong sum.case_cong)

lemma rfind_absent: "rfind c p < 0 \<longleftrightarrow> c \<notin> set p"
  by (induction p) (auto simp: Let_def)

lemma rfind_lower: "- 1 \<le> rfind c p"
  by (induction p) (auto simp: Let_def)

lemma rfind_last:
  "0 \<le> rfind c p \<Longrightarrow>
     nat (rfind c p) < length p \<and> p ! nat (rfind c p) = c
     \<and> c \<notin> set (drop (Suc (nat (rfind c p))) p)"
proof (induction p)
  case Nil
  then show ?case by simp
next
  case (Cons x xs)
  show ?case
  proof (cases "0 \<le> rfind c xs")
    case True
    with Cons.IH have "nat (rfind c xs) < length xs" "xs ! nat (rfind c xs) = c"
      "c \<notin> set (drop (Suc (nat (rfind c xs))) xs)" by simp_all
    moreover from True have "nat (rfind c xs + 1) = Suc (nat (rfind c xs))" by simp
    ultimately show ?thesis using True by (simp add: Let_def)
  next
    case False
    with Cons.prems have "x = c" by (simp add: Let_def split: if_splits)
    moreover from False have "c \<notin> set xs" using rfind_absent [of c xs] by simp
    ultimately show ?thesis using False by (simp add: Let_def)
  qed
qed

lemma splitext_loop_cases:
  "splitext_loop p i d = (p, []) \<or> splitext_loop p i d = (take d p, drop d p)"
proof (induction p i d rule: splitext_loop.induct)
  case (1 p filenameIndex dotIndex)
  show ?case
  proof (cases "filenameIndex < dotIndex \<and> take 1 (drop filenameIndex p) = ''.''")
    case True
    with "1" show ?thesis by (subst (1 2) splitext_loop.simps) simp
  next
    case False
    then show ?thesis by (subst (1 2) splitext_loop.simps) auto
  qed
qed


lemma splitext_nonempty_ext:
  assumes "snd (splitext p) \<noteq> []"
  shows "rfind (CHR ''/'') p < rfind (CHR ''.'') p
         \<and> snd (splitext p) = drop (nat (rfind (CHR ''.'') p)) p"
proof -
  let ?s = "rfind (CHR ''/'') p" and ?d = "rfind (CHR ''.'') p"
  have gt: "?s < ?d"
  proof (rule ccontr)
    assume "\<not> ?s < ?d"
    then have "splitext p = (p, [])" by (simp add: splitext_def Let_def)
    with assms show False by simp
  qed
  then have "splitext p = splitext_loop p (nat (?s + 1)) (nat ?d)"
    by (simp add: splitext_def Let_def)
  with splitext_loop_cases [of p "nat (?s + 1)" "nat ?d"] assms
  have "snd (splitext p) = drop (nat ?d) p" by auto
  with gt show ?thesis by simp
qed

lemma splitext_join: "fst (splitext p) @ snd (splitext p) = p"
  using splitext_loop_cases [of p "nat (rfind (CHR ''/'') p + 1)" "nat (rfind (CHR ''.'') p)"]
  by (auto simp: splitext_def Let_def)

lemma splitext_ext:
  assumes "snd (splitext p) \<noteq> []"
  shows "hd (snd (splitext p)) = CHR ''.'' \<and> CHR ''.'' \<notin> set (tl (snd (splitext p)))
         \<and> CHR ''/'' \<notin> set (snd (splitext p))"
proof -
  let ?s = "rfind (CHR ''/'') p" and ?d = "rfind (CHR ''.'') p"
  from splitext_nonempty_ext [OF assms]
  have gt: "?s < ?d" and ext: "snd (splitext p) = drop (nat ?d) p" by simp_all
  from gt rfind_lower [of "CHR ''/''" p] have d0: "0 \<le> ?d" by linarith
  from rfind_last [OF d0] have len: "nat ?d < length p" and at: "p ! nat ?d = CHR ''.''"
    and rest: "CHR ''.'' \<notin> set (drop (Suc (nat ?d)) p)" by blast+
  from len have unfold: "drop (nat ?d) p = p ! nat ?d # drop (Suc (nat ?d)) p"
    by (rule Cons_nth_drop_Suc [symmetric])
  have nosep: "CHR ''/'' \<notin> set (drop (nat ?d) p)"
  proof (cases "0 \<le> ?s")
    case True
    from rfind_last [OF True] have "CHR ''/'' \<notin> set (drop (Suc (nat ?s)) p)" by blast
    moreover from True gt have "Suc (nat ?s) \<le> nat ?d" by linarith
    then have "set (drop (nat ?d) p) \<subseteq> set (drop (Suc (nat ?s)) p)"
      by (rule set_drop_subset_set_drop)
    ultimately show ?thesis by blast
  next
    case False
    then have "CHR ''/'' \<notin> set p" using rfind_absent [of "CHR ''/''" p] by simp
    moreover have "set (drop (nat ?d) p) \<subseteq> set p" by (rule set_drop_subset)
    ultimately show ?thesis by blast
  qed
  have "hd (snd (splitext p)) = CHR ''.''"
    by (subst ext, subst unfold) (simp add: at)
  moreover have "CHR ''.'' \<notin> set (tl (snd (splitext p)))"
    by (subst ext, subst unfold) (simp add: rest)
  moreover have "CHR ''/'' \<notin> set (snd (splitext p))"
    by (subst ext) (rule nosep)
  ultimately show ?thesis by blast
qed


lemma upload_file_path_str:
  "upload_file_path env n u = ''uploads/'' @ uuid4 env @ ''/'' @ n @ upload_ext u"
  by (simp add: upload_file_path_def stored_path_def path_str_uploads)

lemma upload_file_path_not_snapshot: "upload_file_path env n u \<noteq> ''scans_db.json''"
  by (simp add: upload_file_path_str)

lemma result_path_not_snapshot:
  "path_str (UPLOAD_DIR @ [a, b]) \<noteq> ''scans_db.json''"
  by (simp add: path_str_uploads)

lemma unlink_if_exists_ok: "unlink_if_exists None p fs = (Inr (), fs(p := None))"
  by (auto simp: unlink_if_exists_def)

lemma unlink_if_exists_other:
  "q \<noteq> p \<Longrightarrow> snd (unlink_if_exists io p fs) q = fs q"
  by (auto simp: unlink_if_exists_def split: option.splits)

lemma cleanup_files_other:
  "q \<noteq> path_str a \<Longrightarrow> q \<noteq> path_str b \<Longrightarrow> files (snd (cleanup env a b e w)) q = files w q"
  using unlink_if_exists_other [of q "path_str a" "unlink_pre_op_io env" "files w"]
    unlink_if_exists_other [of q "path_str b" "unlink_during_op_io env"
      "snd (unlink_if_exists (unlink_pre_op_io env) (path_str a) (files w))"]
  by (auto simp: cleanup_def split: prod.splits sum.splits)

lemma cleanup_Inl: "\<exists>e'. fst (cleanup env a b e w) = Inl e'"
  by (auto simp: cleanup_def split: prod.splits sum.splits)

lemma cleanup_ok:
  "unlink_pre_op_io env = None \<Longrightarrow> unlink_during_op_io env = None \<Longrightarrow>
     cleanup env a b e w
       = (Inl (analysis_error e), w\<lparr>files := (files w)(path_str a := None, path_str b := None)\<rparr>)"
  by (simp add: cleanup_def unlink_if_exists_ok)

lemma length_filter_same:
  "length (filter P xs) = length xs \<Longrightarrow> filter P xs = xs"
proof (induction xs)
  case Nil
  show ?case by simp
next
  case (Cons x xs)
  have le: "length (filter P xs) \<le> length xs" by (rule length_filter_le)
  show ?case
  proof (cases "P x")
    case True
    with Cons.prems have "length (filter P xs) = length xs" by simp
    then have "filter P xs = xs" by (rule Cons.IH)
    with True show ?thesis by simp
  next
    case False
    with Cons.prems have "length (filter P xs) = Suc (length xs)" by simp
    with le show ?thesis by linarith
  qed
qed

lemma delete_scan_present:
  assumes "\<exists>scan\<in>set (scans_db w). py_get scan ''id'' = JStr scan_id"
  shows "delete_scan dumps io scan_id w =
     (case io of
        WriteOk \<Rightarrow>
          (Inr [(''status'', JStr ''success''), (''message'', JStr ''Scan deleted'')],
           \<lparr>files = (files w)(''scans_db.json'' \<mapsto> dumps (json_of_scans
                       (filter (\<lambda>scan. py_get scan ''id'' \<noteq> JStr scan_id) (scans_db w)))),
            scans_db = filter (\<lambda>scan. py_get scan ''id'' \<noteq> JStr scan_id) (scans_db w)\<rparr>)
      | OpenFails msg \<Rightarrow>
          (Inl (OSError msg),
           \<lparr>files = files w,
            scans_db = filter (\<lambda>scan. py_get scan ''id'' \<noteq> JStr scan_id) (scans_db w)\<rparr>)
      | WriteFails n msg \<Rightarrow>
          (Inl (OSError msg),
           \<lparr>files = (files w)(''scans_db.json'' \<mapsto> take n (dumps (json_of_scans
                       (filter (\<lambda>scan. py_get scan ''id'' \<noteq> JStr scan_id) (scans_db w))))),
            scans_db = filter (\<lambda>scan. py_get scan ''id'' \<noteq> JStr scan_id) (scans_db w)\<rparr>))"
proof -
  have neq: "length (filter (\<lambda>scan. py_get scan ''id'' \<noteq> JStr scan_id) (scans_db w))
               \<noteq> length (scans_db w)"
  proof
    assume "length (filter (\<lambda>scan. py_get scan ''id'' \<noteq> JStr scan_id) (scans_db w))
              = length (scans_db w)"
    then have "filter (\<lambda>scan. py_get scan ''id'' \<noteq> JStr scan_id) (scans_db w) = scans_db w"
      by (rule length_filter_same)
    then have "\<forall>scan\<in>set (scans_db w). py_get scan ''id'' \<noteq> JStr scan_id"
      by (simp only: filter_id_conv)
    with assms show False by blast
  qed
  show ?thesis
  proof (cases io)
    case WriteOk
    with neq show ?thesis by (simp add: delete_scan_def Let_def dump_scans_def)
  next
    case (OpenFails msg)
    with neq show ?thesis by (simp add: delete_scan_def Let_def dump_scans_def)
  next
    case (WriteFails n msg)
    with neq show ?thesis by (simp add: delete_scan_def Let_def dump_scans_def)
  qed
qed


lemma analyze_occlusion_Inr:
  "analyze_occlusion dumps env pre_op_image during_op_image patient_id w = (Inr r, w') \<Longrightarrow>
     mkdir_io env = None \<and> pre_op_io env = WriteOk \<and> during_op_io env = WriteOk
     \<and> result_io env = WriteOk \<and> db_io env = WriteOk"
  unfolding analyze_occlusion_steps
  by (auto simp: cleanup_Inr write_file_Inr save_scan_to_db_Inr
        split: option.splits prod.splits sum.splits)

lemma analyze_occlusion_ok:
  assumes "mkdir_io env = None" "pre_op_io env = WriteOk" "during_op_io env = WriteOk"
    "result_io env = WriteOk" "db_io env = WriteOk"
  shows "analyze_occlusion dumps env pre_op_image during_op_image patient_id w =
     (Inr (analysis_results (uuid4 env)),
      \<lparr>files = (files w)
         (upload_file_path env ''pre_op'' pre_op_image \<mapsto> content pre_op_image,
          upload_file_path env ''during_op'' during_op_image \<mapsto> content during_op_image,
          path_str (UPLOAD_DIR @ [uuid4 env, ''analysis_results.json''])
            \<mapsto> dumps (JObj (analysis_results (uuid4 env))),
          ''scans_db.json'' \<mapsto> dumps (json_of_scans
             (scans_db w @ [new_record env pre_op_image during_op_image patient_id]))),
       scans_db = scans_db w @ [new_record env pre_op_image during_op_image patient_id]\<rparr>)"
  unfolding analyze_occlusion_steps
  using assms by (simp add: save_scan_to_db_def dump_scans_def Let_def)

lemma write_file_fails:
  "io \<noteq> WriteOk \<Longrightarrow>
     \<exists>e fs'. write_file io p d fs = (Inl e, fs') \<and> (\<forall>q. q \<noteq> p \<longrightarrow> fs' q = fs q)"
  by (cases io) auto

text \<open>
  A request to create in which some write fails ends in the handler; unless the write
  that failed is the one of the snapshot, the handler starts from the collection and
  the snapshot as they were.
\<close>

lemma analyze_occlusion_fails:
  assumes mk: "mkdir_io env = None"
    and bad: "pre_op_io env \<noteq> WriteOk \<or> during_op_io env \<noteq> WriteOk
              \<or> result_io env \<noteq> WriteOk \<or> db_io env \<noteq> WriteOk"
  shows "\<exists>e w1. analyze_occlusion dumps env pre_op_image during_op_image patient_id w
             = cleanup env (UPLOAD_DIR @ stored_path env ''pre_op'' pre_op_image)
                 (UPLOAD_DIR @ stored_path env ''during_op'' during_op_image) e w1
           \<and> (pre_op_io env \<noteq> WriteOk \<or> during_op_io env \<noteq> WriteOk
                \<or> result_io env \<noteq> WriteOk
              \<longrightarrow> scans_db w1 = scans_db w
                  \<and> files w1 ''scans_db.json'' = files w ''scans_db.json'')
           \<and> (pre_op_io env = WriteOk \<and> during_op_io env = WriteOk \<and> result_io env = WriteOk
              \<longrightarrow> scans_db w1
                    = scans_db w @ [new_record env pre_op_image during_op_image patient_id])"
proof -
  let ?P = "UPLOAD_DIR @ stored_path env ''pre_op'' pre_op_image"
  let ?D = "UPLOAD_DIR @ stored_path env ''during_op'' during_op_image"
  let ?p = "upload_file_path env ''pre_op'' pre_op_image"
  let ?d = "upload_file_path env ''during_op'' during_op_image"
  let ?r = "path_str (UPLOAD_DIR @ [uuid4 env, ''analysis_results.json''])"
  let ?s = "''scans_db.json''"
  have sp: "?s \<noteq> ?p" and sd: "?s \<noteq> ?d" and sr: "?s \<noteq> ?r"
    using upload_file_path_not_snapshot [of env "''pre_op''" pre_op_image]
      upload_file_path_not_snapshot [of env "''during_op''" during_op_image]
      result_path_not_snapshot [of "uuid4 env" "''analysis_results.json''"]
    by auto
  show ?thesis
  proof (cases "pre_op_io env = WriteOk")
    case False
    from write_file_fails [OF False, of ?p "content pre_op_image" "files w"]
    obtain e fs1 where wf: "write_file (pre_op_io env) ?p (content pre_op_image) (files w) = (Inl e, fs1)"
      and same: "\<forall>q. q \<noteq> ?p \<longrightarrow> fs1 q = files w q" by blast
    from mk wf have "analyze_occlusion dumps env pre_op_image during_op_image patient_id w
        = cleanup env ?P ?D e (w\<lparr>files := fs1\<rparr>)"
      by (simp add: analyze_occlusion_steps)
    moreover from same sp have "files (w\<lparr>files := fs1\<rparr>) ?s = files w ?s" by simp
    ultimately show ?thesis using False by (intro exI [of _ e] exI [of _ "w\<lparr>files := fs1\<rparr>"]) simp
  next
    case pre: True
    let ?fs1 = "(files w)(?p \<mapsto> content pre_op_image)"
    show ?thesis
    proof (cases "during_op_io env = WriteOk")
      case False
      from write_file_fails [OF False, of ?d "content during_op_image" ?fs1]
      obtain e fs2 where wf: "write_file (during_op_io env) ?d (content during_op_image) ?fs1 = (Inl e, fs2)"
        and same: "\<forall>q. q \<noteq> ?d \<longrightarrow> fs2 q = ?fs1 q" by blast
      from mk pre wf have "analyze_occlusion dumps env pre_op_image during_op_image patient_id w
          = cleanup env ?P ?D e (w\<lparr>files := fs2\<rparr>)"
        by (simp add: analyze_occlusion_steps)
      moreover from same sp sd have "files (w\<lparr>files := fs2\<rparr>) ?s = files w ?s" by simp
      ultimately show ?thesis using False
        by (intro exI [of _ e] exI [of _ "w\<lparr>files := fs2\<rparr>"]) simp
    next
      case during: True
      let ?fs2 = "?fs1(?d \<mapsto> content during_op_image)"
      show ?thesis
      proof (cases "result_io env = WriteOk")
        case False
        from write_file_fails [OF False, of ?r "dumps (JObj (analysis_results (uuid4 env)))" ?fs2]
        obtain e fs3 where wf: "write_file (result_io env) ?r
              (dumps (JObj (analysis_results (uuid4 env)))) ?fs2 = (Inl e, fs3)"
          and same: "\<forall>q. q \<noteq> ?r \<longrightarrow> fs3 q = ?fs2 q" by blast
        from mk pre during wf
        have "analyze_occlusion dumps env pre_op_image during_op_image patient_id w
            = cleanup env ?P ?D e (w\<lparr>files := fs3\<rparr>)"
          by (simp add: analyze_occlusion_steps)
        moreover from same sp sd sr have "files (w\<lparr>files := fs3\<rparr>) ?s = files w ?s" by simp
        ultimately show ?thesis using False
          by (intro exI [of _ e] exI [of _ "w\<lparr>files := fs3\<rparr>"]) simp
      next
        case result: True
        let ?fs3 = "?fs2(?r \<mapsto> dumps (JObj (analysis_results (uuid4 env))))"
        let ?rec = "new_record env pre_op_image during_op_image patient_id"
        from bad pre during result have db: "db_io env \<noteq> WriteOk" by blast
        from write_file_fails [OF db, of ?s "dumps (json_of_scans (scans_db w @ [?rec]))" ?fs3]
        obtain e fs4 where wf: "write_file (db_io env) ?s
              (dumps (json_of_scans (scans_db w @ [?rec]))) ?fs3 = (Inl e, fs4)" by blast
        from mk pre during result wf
        have "analyze_occlusion dumps env pre_op_image during_op_image patient_id w
            = cleanup env ?P ?D e (w\<lparr>scans_db := scans_db w @ [?rec], files := fs4\<rparr>)"
          by (simp add: analyze_occlusion_steps save_scan_to_db_def dump_scans_def Let_def)
        then show ?thesis using pre during result
          by (intro exI [of _ e] exI [of _ "w\<lparr>scans_db := scans_db w @ [?rec], files := fs4\<rparr>"])
             simp
      qed
    qed
  qed
qed

lemma upload_paths_distinct:
  "upload_file_path env ''pre_op'' a \<noteq> upload_file_path env ''during_op'' b"
  "upload_file_path env ''pre_op'' a \<noteq> path_str (UPLOAD_DIR @ [uuid4 env, ''analysis_results.json''])"
  "upload_file_path env ''during_op'' b \<noteq> path_str (UPLOAD_DIR @ [uuid4 env, ''analysis_results.json''])"
  by (simp_all add: upload_file_path_str path_str_uploads)

lemma analyze_occlusion_ok_files:
  assumes "mkdir_io env = None" "pre_op_io env = WriteOk" "during_op_io env = WriteOk"
    "result_io env = WriteOk" "db_io env = WriteOk"
  shows "files (snd (analyze_occlusion dumps env pre_op_image during_op_image patient_id w))
           (upload_file_path env ''pre_op'' pre_op_image) = Some (content pre_op_image)"
    and "files (snd (analyze_occlusion dumps env pre_op_image during_op_image patient_id w))
           (upload_file_path env ''during_op'' during_op_image) = Some (content during_op_image)"
  using upload_paths_distinct
    upload_file_path_not_snapshot [of env "''pre_op''" pre_op_image]
    upload_file_path_not_snapshot [of env "''during_op''" during_op_image]
  by (simp_all add: analyze_occlusion_ok [OF assms])

lemma upload_ext_cases:
  "(filename u = None \<or> filename u = Some [] \<longrightarrow> upload_ext u = ''.jpg'')
   \<and> (\<forall>n. filename u = Some n \<and> n \<noteq> []
          \<longrightarrow> upload_ext u = snd (splitext n)
              \<and> (\<exists>root. n = root @ upload_ext u)
              \<and> (upload_ext u = []
                  \<or> (hd (upload_ext u) = CHR ''.'' \<and> CHR ''.'' \<notin> set (tl (upload_ext u))
                      \<and> CHR ''/'' \<notin> set (upload_ext u))))"
proof (intro conjI allI impI)
  assume "filename u = None \<or> filename u = Some []"
  then show "upload_ext u = ''.jpg''" by (auto simp: upload_ext_def)
next
  fix n
  assume a: "filename u = Some n \<and> n \<noteq> []"
  then have e: "upload_ext u = snd (splitext n)" by (simp add: upload_ext_def)
  then show "upload_ext u = snd (splitext n)" .
  from e splitext_join [of n] show "\<exists>root. n = root @ upload_ext u" by metis
  from e splitext_ext [of n]
  show "upload_ext u = []
        \<or> (hd (upload_ext u) = CHR ''.'' \<and> CHR ''.'' \<notin> set (tl (upload_ext u))
            \<and> CHR ''/'' \<notin> set (upload_ext u))"
    by (cases "snd (splitext n) = []") simp_all
qed

lemma setitem_last: "setitem (length h) k v (h @ [d]) = h @ [AList.update k v d]"
  by (simp add: setitem_def)

text \<open>
  On a store whose last object is a fresh copy of \<open>scan\<close>, the assignments of lines 94
  to 99 change that copy only, and the copy ends as \<open>add_urls\<close> says.
\<close>

lemma add_urls_store_copy:
  "\<exists>d. add_urls_store str_of (length h) (h @ [scan])
         = (case add_urls str_of scan of Inl e \<Rightarrow> Inl e | Inr d' \<Rightarrow> Inr (), h @ [d])
       \<and> (\<forall>d'. add_urls str_of scan = Inr d' \<longrightarrow> d = d')"
  by (auto simp: add_urls_store_def add_urls_def setitem_last Let_def split: option.splits)

lemma get_scan_store_found:
  "List.find (\<lambda>r. py_get (h ! r) ''id'' = JStr scan_id) refs = Some r \<Longrightarrow>
     get_scan_store str_of h refs scan_id
       = (case add_urls_store str_of (length h) (h @ [h ! r]) of
            (Inl e, h2) \<Rightarrow> (Inl e, h2)
          | (Inr u, h2) \<Rightarrow> (Inr (length h), h2))
     \<and> get_scan str_of (map ((!) h) refs) scan_id = add_urls str_of (h ! r)"
  by (induction refs) (auto simp: Let_def split: if_splits)

lemma get_scan_store_absent:
  "List.find (\<lambda>r. py_get (h ! r) ''id'' = JStr scan_id) refs = None \<Longrightarrow>
     get_scan_store str_of h refs scan_id = (Inl (HTTPException 404 ''Scan not found''), h)"
  by (induction refs) (auto split: if_splits)

lemma add_urls_paths:
  assumes "map_of scan ''pre_op_path'' = Some p"
    and "map_of scan ''during_op_path'' = Some q"
    and "map_of scan ''result_path'' = Some s"
  shows "add_urls str_of scan =
     Inr (AList.update ''result_url'' (upload_url str_of s)
           (AList.update ''during_op_url'' (upload_url str_of q)
             (AList.update ''pre_op_url'' (upload_url str_of p) scan)))"
  using assms
  by (simp add: add_urls_def Let_def update_conv' py_in_def py_get_def)

lemma upload_url_str: "upload_url str_of (JStr p) = JStr (base_url @ ''/uploads/'' @ p)"
  by (simp add: upload_url_def format_value_def)

lemma new_record_paths:
  "map_of (new_record env pre_op_image during_op_image patient_id) ''pre_op_path''
     = Some (JStr (path_str (stored_path env ''pre_op'' pre_op_image)))"
  "map_of (new_record env pre_op_image during_op_image patient_id) ''during_op_path''
     = Some (JStr (path_str (stored_path env ''during_op'' during_op_image)))"
  "map_of (new_record env pre_op_image during_op_image patient_id) ''result_path''
     = Some (JStr (path_str [uuid4 env, ''analysis_results.json'']))"
  by (simp_all add: new_record_def scan_record_def)

section \<open>Lemmas on the encoder and the decoder\<close>

subsection \<open>Integers\<close>









subsection \<open>Number literals before a delimiter\<close>

















subsection \<open>Strings\<close>






subsection \<open>Scalars\<close>




























subsection \<open>Lists and dictionaries\<close>









subsection \<open>Decoding what was encoded\<close>










subsection \<open>The values the decoder builds\<close>








subsection \<open>The collection after a request\<close>





section \<open>Properties of listing\<close>

text \<open>
  C4, as stated, fails: with the empty patient identifier the guard of \<open>get_scans\<close> is
  false and every record is returned, also those of patient \<open>P1\<close>.
\<close>

theorem get_scans_empty_patient_counterexample:
  "get_scans [[(''id'', JStr ''a''), (''patient_id'', JStr ''P1'')]] (Some '''')
     = [[(''id'', JStr ''a''), (''patient_id'', JStr ''P1'')]]
   \<and> filter (\<lambda>scan. py_get scan ''patient_id'' = JStr '''')
         (get_scans [[(''id'', JStr ''a''), (''patient_id'', JStr ''P1'')]] None) = []"
  by (simp add: get_scans_def py_get_def)

text \<open>
  C4, amended: for every store state and every non-empty patient identifier \<open>X\<close>,
  \<open>list(patient_id=X)\<close> is exactly the records of \<open>list()\<close> whose \<open>patient_id\<close> field equals
  \<open>X\<close>, in their relative insertion order; \<open>list()\<close> with no argument, and with the empty
  identifier, is the whole collection in insertion order.
\<close>

theorem get_scans_filter:
  "(X \<noteq> [] \<longrightarrow>
      get_scans db (Some X)
        = filter (\<lambda>scan. py_get scan ''patient_id'' = JStr X) (get_scans db None))
   \<and> get_scans db None = db
   \<and> get_scans db (Some []) = db"
  by (simp add: get_scans_def)

theorem get_scans_filter_witness:
  "''P1'' \<noteq> []
   \<and> get_scans [[(''id'', JStr ''a''), (''patient_id'', JStr ''P1'')],
                [(''id'', JStr ''b''), (''patient_id'', JStr ''P2'')],
                [(''id'', JStr ''c''), (''patient_id'', JStr ''P1'')]] (Some ''P1'')
     = [[(''id'', JStr ''a''), (''patient_id'', JStr ''P1'')],
        [(''id'', JStr ''c''), (''patient_id'', JStr ''P1'')]]"
  using get_scans_filter [of "''P1''"
    "[[(''id'', JStr ''a''), (''patient_id'', JStr ''P1'')],
      [(''id'', JStr ''b''), (''patient_id'', JStr ''P2'')],
      [(''id'', JStr ''c''), (''patient_id'', JStr ''P1'')]]"]
  by (simp add: py_get_def)

section \<open>Properties of startup\<close>

text \<open>
  C1: if the snapshot file exists and \<^verbatim>\<open>json.load\<close> rejects its contents,
  \<open>load_scans_from_db\<close> raises (the \<open>ValueError\<close> of the decoder, the persistence
  error of the store) and, being called at import time, halts the start instead of
  yielding an empty collection; if the file is absent it yields the empty collection.
\<close>

theorem load_scans_from_db_startup:
  "(\<forall>text. fs ''scans_db.json'' = Some text \<and> loads text = None
         \<longrightarrow> load_scans_from_db loads fs = Inl ValueError)
   \<and> (fs ''scans_db.json'' = None \<longrightarrow> load_scans_from_db loads fs = Inr (JArr []))"
  by (simp add: load_scans_from_db_def)

theorem load_scans_from_db_startup_witness:
  "[''scans_db.json'' \<mapsto> ''[{''] ''scans_db.json'' = Some ''[{''
   \<and> (\<lambda>s. if s = ''[]'' then Some (JArr []) else None) ''[{'' = None
   \<and> load_scans_from_db (\<lambda>s. if s = ''[]'' then Some (JArr []) else None)
         [''scans_db.json'' \<mapsto> ''[{'']
       = Inl ValueError
   \<and> Map.empty ''scans_db.json'' = (None :: string option)
   \<and> load_scans_from_db (\<lambda>s. if s = ''[]'' then Some (JArr []) else None) Map.empty
       = Inr (JArr [])"
  using load_scans_from_db_startup [of "[''scans_db.json'' \<mapsto> ''[{'']"
      "\<lambda>s. if s = ''[]'' then Some (JArr []) else None"]
    load_scans_from_db_startup [of Map.empty "\<lambda>s. if s = ''[]'' then Some (JArr []) else None"]
  by simp

section \<open>Properties of deletion\<close>

text \<open>
  C6: after a successful \<open>delete(id)\<close>, with no create in between, \<open>get(id)\<close> fails with
  the 404 \<open>Scan not found\<close>, for the comprehension of \<open>delete_scan\<close> drops every record
  with that identifier.
\<close>

theorem get_after_delete_not_found:
  "delete_scan dumps io scan_id w = (Inr r, w')
     \<Longrightarrow> get_scan str_of (scans_db w') scan_id = Inl (HTTPException 404 ''Scan not found'')"
  by (auto simp: delete_scan_def Let_def get_scan_absent split: if_splits prod.splits sum.splits)

theorem get_after_delete_not_found_witness:
  "delete_scan (\<lambda>v. ''[]'') WriteOk ''a''
       \<lparr>files = Map.empty, scans_db = [[(''id'', JStr ''a''), (''patient_id'', JStr ''P1'')]]\<rparr>
     = (Inr [(''status'', JStr ''success''), (''message'', JStr ''Scan deleted'')],
        \<lparr>files = [''scans_db.json'' \<mapsto> ''[]''], scans_db = []\<rparr>)
   \<and> get_scan (\<lambda>v. ''?'') (scans_db \<lparr>files = [''scans_db.json'' \<mapsto> ''[]''], scans_db = []\<rparr>) ''a''
     = Inl (HTTPException 404 ''Scan not found'')"
proof -
  have h: "delete_scan (\<lambda>v. ''[]'') WriteOk ''a''
       \<lparr>files = Map.empty, scans_db = [[(''id'', JStr ''a''), (''patient_id'', JStr ''P1'')]]\<rparr>
     = (Inr [(''status'', JStr ''success''), (''message'', JStr ''Scan deleted'')],
        \<lparr>files = [''scans_db.json'' \<mapsto> ''[]''], scans_db = []\<rparr>)"
    by (simp add: delete_scan_def Let_def py_get_def dump_scans_def json_of_scans_def)
  from h get_after_delete_not_found [OF h, of "\<lambda>v. ''?''"] show ?thesis by simp
qed

text \<open>
  C7: for an identifier that no record of the collection has, \<open>delete(id)\<close> fails with
  the 404 \<open>Scan not found\<close> and leaves the whole state as it was: the in-memory
  collection and every file, the snapshot among them.
\<close>

theorem delete_absent_unchanged:
  "\<forall>scan\<in>set (scans_db w). py_get scan ''id'' \<noteq> JStr scan_id
     \<Longrightarrow> delete_scan dumps io scan_id w = (Inl (HTTPException 404 ''Scan not found''), w)"
  by (simp add: delete_scan_def Let_def)

theorem delete_absent_unchanged_witness:
  "py_get [(''id'', JStr ''a'')] ''id'' \<noteq> JStr ''b''
   \<and> delete_scan (\<lambda>v. ''[]'') WriteOk ''b''
         \<lparr>files = [''scans_db.json'' \<mapsto> ''S''], scans_db = [[(''id'', JStr ''a'')]]\<rparr>
       = (Inl (HTTPException 404 ''Scan not found''),
          \<lparr>files = [''scans_db.json'' \<mapsto> ''S''], scans_db = [[(''id'', JStr ''a'')]]\<rparr>)"
proof -
  have h: "\<forall>scan\<in>set (scans_db \<lparr>files = [''scans_db.json'' \<mapsto> ''S''],
                                   scans_db = [[(''id'', JStr ''a'')]]\<rparr>).
             py_get scan ''id'' \<noteq> JStr ''b''"
    by (simp add: py_get_def)
  from h delete_absent_unchanged [OF h, of "\<lambda>v. ''[]''" WriteOk] show ?thesis by simp
qed

section \<open>Properties of the snapshot\<close>




text \<open>
  C2, as stated, fails: the code has no rollback. Here the snapshot holds the one record
  of the collection, the delete of that record cannot open the snapshot for writing,
  the operation fails, and the collection in memory is empty while the snapshot still
  decodes to the record.
\<close>

theorem delete_write_failure_counterexample:
  "(let dumps = (\<lambda>v. if v = JArr [] then ''[]'' else ''[a]'');
        loads = (\<lambda>s. if s = ''[]'' then Some (JArr [])
                     else if s = ''[a]'' then Some (json_of_scans [[(''id'', JStr ''a'')]])
                     else None);
        w = \<lparr>files = [''scans_db.json'' \<mapsto> ''[a]''], scans_db = [[(''id'', JStr ''a'')]]\<rparr>;
        res = delete_scan dumps (OpenFails ''denied'') ''a'' w
    in load_scans_from_db loads (files w) = Inr (json_of_scans (scans_db w))
       \<and> fst res = Inl (OSError ''denied'')
       \<and> scans_db (snd res) = []
       \<and> load_scans_from_db loads (files (snd res)) = Inr (json_of_scans [[(''id'', JStr ''a'')]])
       \<and> load_scans_from_db loads (files (snd res)) \<noteq> Inr (json_of_scans (scans_db (snd res))))"
  by (simp add: Let_def delete_scan_def dump_scans_def py_get_def load_scans_from_db_def
        json_of_scans_def)

text \<open>
  C2, amended: for every mutating operation (create or delete) the snapshot is rewritten
  synchronously after the in-memory mutation. If the rewrite succeeds, the operation
  succeeds and the snapshot holds the encoding of the in-memory collection. If the
  rewrite fails, the operation as a whole fails, the snapshot is left as it was (when
  it could not be opened) or holds a prefix of the new encoding (when the write broke
  off), and the in-memory collection keeps the mutation: it is not rolled back.
\<close>

theorem snapshot_rewrite_no_rollback:
  "(\<forall>res w'. (\<exists>scan\<in>set (scans_db w). py_get scan ''id'' = JStr scan_id)
               \<and> delete_scan dumps io scan_id w = (res, w')
      \<longrightarrow> scans_db w' = filter (\<lambda>scan. py_get scan ''id'' \<noteq> JStr scan_id) (scans_db w)
          \<and> (case io of
                WriteOk \<Rightarrow>
                  res = Inr [(''status'', JStr ''success''), (''message'', JStr ''Scan deleted'')]
                  \<and> files w' ''scans_db.json'' = Some (dumps (json_of_scans (scans_db w')))
              | OpenFails msg \<Rightarrow>
                  res = Inl (OSError msg)
                  \<and> files w' ''scans_db.json'' = files w ''scans_db.json''
              | WriteFails n msg \<Rightarrow>
                  res = Inl (OSError msg)
                  \<and> files w' ''scans_db.json''
                      = Some (take n (dumps (json_of_scans (scans_db w'))))))
   \<and> (\<forall>res w'. mkdir_io env = None \<and> pre_op_io env = WriteOk \<and> during_op_io env = WriteOk
               \<and> result_io env = WriteOk
               \<and> analyze_occlusion dumps env pre_op_image during_op_image patient_id w = (res, w')
      \<longrightarrow> scans_db w' = scans_db w @ [new_record env pre_op_image during_op_image patient_id]
          \<and> (case db_io env of
                WriteOk \<Rightarrow>
                  res = Inr (analysis_results (uuid4 env))
                  \<and> files w' ''scans_db.json'' = Some (dumps (json_of_scans (scans_db w')))
              | OpenFails msg \<Rightarrow>
                  (\<exists>e. res = Inl e)
                  \<and> files w' ''scans_db.json'' = files w ''scans_db.json''
              | WriteFails n msg \<Rightarrow>
                  (\<exists>e. res = Inl e)
                  \<and> files w' ''scans_db.json''
                      = Some (take n (dumps (json_of_scans (scans_db w'))))))"
proof (intro conjI allI impI)
  fix res w'
  assume a: "(\<exists>scan\<in>set (scans_db w). py_get scan ''id'' = JStr scan_id)
             \<and> delete_scan dumps io scan_id w = (res, w')"
  then have p: "\<exists>scan\<in>set (scans_db w). py_get scan ''id'' = JStr scan_id"
    and d: "delete_scan dumps io scan_id w = (res, w')" by blast+
  from d delete_scan_present [OF p, of dumps io]
  show "scans_db w' = filter (\<lambda>scan. py_get scan ''id'' \<noteq> JStr scan_id) (scans_db w)"
    by (cases io) auto
  from d delete_scan_present [OF p, of dumps io]
  show "case io of
          WriteOk \<Rightarrow>
            res = Inr [(''status'', JStr ''success''), (''message'', JStr ''Scan deleted'')]
            \<and> files w' ''scans_db.json'' = Some (dumps (json_of_scans (scans_db w')))
        | OpenFails msg \<Rightarrow>
            res = Inl (OSError msg) \<and> files w' ''scans_db.json'' = files w ''scans_db.json''
        | WriteFails n msg \<Rightarrow>
            res = Inl (OSError msg)
            \<and> files w' ''scans_db.json'' = Some (take n (dumps (json_of_scans (scans_db w'))))"
    by (cases io) auto
next
  fix res w'
  let ?P = "UPLOAD_DIR @ stored_path env ''pre_op'' pre_op_image"
  let ?D = "UPLOAD_DIR @ stored_path env ''during_op'' during_op_image"
  let ?p = "upload_file_path env ''pre_op'' pre_op_image"
  let ?d = "upload_file_path env ''during_op'' during_op_image"
  let ?r = "path_str (UPLOAD_DIR @ [uuid4 env, ''analysis_results.json''])"
  let ?rec = "new_record env pre_op_image during_op_image patient_id"
  let ?fs3 = "(files w)(?p \<mapsto> content pre_op_image, ?d \<mapsto> content during_op_image,
                ?r \<mapsto> dumps (JObj (analysis_results (uuid4 env))))"
  assume a: "mkdir_io env = None \<and> pre_op_io env = WriteOk \<and> during_op_io env = WriteOk
             \<and> result_io env = WriteOk
             \<and> analyze_occlusion dumps env pre_op_image during_op_image patient_id w = (res, w')"
  then have mk: "mkdir_io env = None" and pre: "pre_op_io env = WriteOk"
    and during: "during_op_io env = WriteOk" and result: "result_io env = WriteOk"
    and c: "analyze_occlusion dumps env pre_op_image during_op_image patient_id w = (res, w')"
    by blast+
  have np: "''scans_db.json'' \<noteq> path_str ?P" and nd: "''scans_db.json'' \<noteq> path_str ?D"
    and sp: "''scans_db.json'' \<noteq> ?p" and sd: "''scans_db.json'' \<noteq> ?d"
    and sr: "''scans_db.json'' \<noteq> ?r"
    using upload_file_path_not_snapshot [of env "''pre_op''" pre_op_image]
      upload_file_path_not_snapshot [of env "''during_op''" during_op_image]
      result_path_not_snapshot [of "uuid4 env" "''analysis_results.json''"]
    by (auto simp: upload_file_path_def)
  have both: "scans_db w' = scans_db w @ [?rec] \<and>
        (case db_io env of
           WriteOk \<Rightarrow>
             res = Inr (analysis_results (uuid4 env))
             \<and> files w' ''scans_db.json'' = Some (dumps (json_of_scans (scans_db w')))
         | OpenFails msg \<Rightarrow>
             (\<exists>e. res = Inl e) \<and> files w' ''scans_db.json'' = files w ''scans_db.json''
         | WriteFails n msg \<Rightarrow>
             (\<exists>e. res = Inl e)
             \<and> files w' ''scans_db.json'' = Some (take n (dumps (json_of_scans (scans_db w')))))"
  proof (cases "db_io env")
    case WriteOk
    from c analyze_occlusion_ok [OF mk pre during result WriteOk,
        of dumps pre_op_image during_op_image patient_id w] WriteOk
    show ?thesis by auto
  next
    case (OpenFails msg)
    let ?w1 = "w\<lparr>files := ?fs3, scans_db := scans_db w @ [?rec]\<rparr>"
    from mk pre during result OpenFails
    have "analyze_occlusion dumps env pre_op_image during_op_image patient_id w
            = cleanup env ?P ?D (OSError msg) ?w1"
      by (simp add: analyze_occlusion_steps save_scan_to_db_def dump_scans_def Let_def)
    with c have r: "res = fst (cleanup env ?P ?D (OSError msg) ?w1)"
      and w': "w' = snd (cleanup env ?P ?D (OSError msg) ?w1)"
      by simp_all
    from r cleanup_Inl [of env ?P ?D "OSError msg" ?w1] have "\<exists>e. res = Inl e" by simp
    moreover from w' have "scans_db w' = scans_db w @ [?rec]" by (simp add: cleanup_scans_db)
    moreover from w' sp sd sr have "files w' ''scans_db.json'' = files w ''scans_db.json''"
      by (simp add: cleanup_files_other [OF np nd])
    ultimately show ?thesis using OpenFails by simp
  next
    case (WriteFails n msg)
    let ?w1 = "w\<lparr>scans_db := scans_db w @ [?rec],
                 files := ?fs3(''scans_db.json'' \<mapsto>
                            take n (dumps (json_of_scans (scans_db w @ [?rec]))))\<rparr>"
    from mk pre during result WriteFails
    have "analyze_occlusion dumps env pre_op_image during_op_image patient_id w
            = cleanup env ?P ?D (OSError msg) ?w1"
      by (simp add: analyze_occlusion_steps save_scan_to_db_def dump_scans_def Let_def)
    with c have r: "res = fst (cleanup env ?P ?D (OSError msg) ?w1)"
      and w': "w' = snd (cleanup env ?P ?D (OSError msg) ?w1)"
      by simp_all
    from r cleanup_Inl [of env ?P ?D "OSError msg" ?w1] have "\<exists>e. res = Inl e" by simp
    moreover from w' have db: "scans_db w' = scans_db w @ [?rec]"
      by (simp add: cleanup_scans_db)
    moreover from w' db have "files w' ''scans_db.json''
        = Some (take n (dumps (json_of_scans (scans_db w'))))"
      by (simp add: cleanup_files_other [OF np nd])
    ultimately show ?thesis using WriteFails by simp
  qed
  from both show "scans_db w' = scans_db w @ [?rec]" by blast
  from both show "case db_io env of
           WriteOk \<Rightarrow>
             res = Inr (analysis_results (uuid4 env))
             \<and> files w' ''scans_db.json'' = Some (dumps (json_of_scans (scans_db w')))
         | OpenFails msg \<Rightarrow>
             (\<exists>e. res = Inl e) \<and> files w' ''scans_db.json'' = files w ''scans_db.json''
         | WriteFails n msg \<Rightarrow>
             (\<exists>e. res = Inl e)
             \<and> files w' ''scans_db.json'' = Some (take n (dumps (json_of_scans (scans_db w'))))"
    by blast
qed

theorem snapshot_rewrite_no_rollback_witness:
  "(let w = \<lparr>files = [''scans_db.json'' \<mapsto> ''[a]''], scans_db = [[(''id'', JStr ''a'')]]\<rparr>;
        res = delete_scan (\<lambda>v. ''[]'') (OpenFails ''denied'') ''a'' w
    in py_get [(''id'', JStr ''a'')] ''id'' = JStr ''a''
       \<and> fst res = Inl (OSError ''denied'')
       \<and> scans_db (snd res) = []
       \<and> files (snd res) ''scans_db.json'' = Some ''[a]'')
   \<and> (let env = \<lparr>uuid4 = ''u1'', utc_now = ''t'', mkdir_io = None, pre_op_io = WriteOk,
                  during_op_io = WriteOk, result_io = WriteOk, db_io = WriteFails 1 ''full'',
                  unlink_pre_op_io = None, unlink_during_op_io = None\<rparr>;
            pre = \<lparr>filename = Some ''a.png'', content = ''x''\<rparr>;
            during = \<lparr>filename = None, content = ''y''\<rparr>;
            res = analyze_occlusion (\<lambda>v. ''[b]'') env pre during ''P1''
                    \<lparr>files = Map.empty, scans_db = []\<rparr>
        in (\<exists>e. fst res = Inl e)
           \<and> scans_db (snd res) = [new_record env pre during ''P1'']
           \<and> files (snd res) ''scans_db.json'' = Some ''['')"
proof -
  let ?w = "\<lparr>files = [''scans_db.json'' \<mapsto> ''[a]''], scans_db = [[(''id'', JStr ''a'')]]\<rparr>"
  let ?D = "\<lambda>v::json. ''[]''"
  let ?env = "\<lparr>uuid4 = ''u1'', utc_now = ''t'', mkdir_io = None, pre_op_io = WriteOk,
                  during_op_io = WriteOk, result_io = WriteOk, db_io = WriteFails 1 ''full'',
                  unlink_pre_op_io = None, unlink_during_op_io = None\<rparr>"
  let ?pre = "\<lparr>filename = Some ''a.png'', content = ''x''\<rparr>"
  let ?during = "\<lparr>filename = None, content = ''y''\<rparr>"
  let ?D2 = "\<lambda>v::json. ''[b]''"
  let ?v = "\<lparr>files = Map.empty, scans_db = []\<rparr>"
  obtain r1 w1 where d: "delete_scan ?D (OpenFails ''denied'') ''a'' ?w = (r1, w1)"
    by (cases "delete_scan ?D (OpenFails ''denied'') ''a'' ?w")
  obtain r2 w2 where c: "analyze_occlusion ?D2 ?env ?pre ?during ''P1'' ?v = (r2, w2)"
    by (cases "analyze_occlusion ?D2 ?env ?pre ?during ''P1'' ?v")
  have present: "\<exists>scan\<in>set (scans_db ?w). py_get scan ''id'' = JStr ''a''"
    by (simp add: py_get_def)
  have ios: "mkdir_io ?env = None \<and> pre_op_io ?env = WriteOk \<and> during_op_io ?env = WriteOk
             \<and> result_io ?env = WriteOk"
    by simp
  note inst1 = snapshot_rewrite_no_rollback
    [where w = ?w and scan_id = "''a''" and dumps = ?D and io = "OpenFails ''denied''"]
  note inst2 = snapshot_rewrite_no_rollback
    [where w = ?v and dumps = ?D2 and env = ?env and pre_op_image = ?pre
       and during_op_image = ?during and patient_id = "''P1''"]
  from inst1 present d have del: "scans_db w1 = [] \<and> r1 = Inl (OSError ''denied'')
      \<and> files w1 ''scans_db.json'' = Some ''[a]''"
    by (auto simp: py_get_def)
  from inst2 ios c have cre: "scans_db w2 = [new_record ?env ?pre ?during ''P1'']
      \<and> (\<exists>e. r2 = Inl e) \<and> files w2 ''scans_db.json'' = Some ''[''"
    by auto
  from d c del cre show ?thesis
    by (simp add: Let_def py_get_def)
qed

section \<open>Properties of creation\<close>

text \<open>
  C3, as stated, fails when the step that fails is the persistence of the record:
  \<open>save_scan_to_db\<close> appends before it writes, so with a snapshot that cannot be
  opened the request fails with the 500, both upload files are removed, and the new
  record is in the collection that \<open>list()\<close> returns.
\<close>

theorem create_persist_failure_counterexample:
  "(let env = \<lparr>uuid4 = ''u1'', utc_now = ''t'', mkdir_io = None, pre_op_io = WriteOk,
                 during_op_io = WriteOk, result_io = WriteOk, db_io = OpenFails ''denied'',
                 unlink_pre_op_io = None, unlink_during_op_io = None\<rparr>;
        pre = \<lparr>filename = Some ''a.png'', content = ''x''\<rparr>;
        during = \<lparr>filename = Some ''b.png'', content = ''y''\<rparr>;
        res = analyze_occlusion (\<lambda>v. ''[]'') env pre during ''P1''
                \<lparr>files = Map.empty, scans_db = []\<rparr>
    in fst res = Inl (HTTPException 500 ''An error occurred during analysis: denied'')
       \<and> files (snd res) ''uploads/u1/pre_op.png'' = None
       \<and> files (snd res) ''uploads/u1/during_op.png'' = None
       \<and> get_scans (scans_db (snd res)) None
           = [scan_record ''u1'' ''P1'' ''u1/pre_op.png'' ''u1/during_op.png''
                ''u1/analysis_results.json'' ''t''])"
  by (simp add: Let_def analyze_occlusion_steps save_scan_to_db_def dump_scans_def
        cleanup_def unlink_if_exists_def upload_file_path_def stored_path_def UPLOAD_DIR_def
        upload_ext_def splitext_def splitext_loop.simps new_record_def get_scans_def
        analysis_error_def)

text \<open>
  C3, amended: for every create request, if any step after directory allocation fails
  (an upload write, the artifact write or the snapshot rewrite), the failure is
  propagated to the caller, and when both removals succeed the caller gets the 500 of
  the handler and neither upload file is left (best-effort: a removal that fails raises
  instead). If the failing step is an upload write or the artifact write, the
  collection and the snapshot are as they were at entry, so no new record is visible
  to \<open>list()\<close>.
\<close>

theorem create_failure_cleanup:
  assumes mk: "mkdir_io env = None"
    and bad: "pre_op_io env \<noteq> WriteOk \<or> during_op_io env \<noteq> WriteOk
              \<or> result_io env \<noteq> WriteOk \<or> db_io env \<noteq> WriteOk"
    and run: "analyze_occlusion dumps env pre_op_image during_op_image patient_id w = (res, w')"
  shows "(\<exists>e. res = Inl e)
    \<and> (unlink_pre_op_io env = None \<and> unlink_during_op_io env = None
         \<longrightarrow> (\<exists>e. res = Inl (analysis_error e))
             \<and> files w' (upload_file_path env ''pre_op'' pre_op_image) = None
             \<and> files w' (upload_file_path env ''during_op'' during_op_image) = None)
    \<and> (pre_op_io env \<noteq> WriteOk \<or> during_op_io env \<noteq> WriteOk \<or> result_io env \<noteq> WriteOk
         \<longrightarrow> scans_db w' = scans_db w
             \<and> get_scans (scans_db w') None = get_scans (scans_db w) None
             \<and> files w' ''scans_db.json'' = files w ''scans_db.json'')"
proof -
  let ?P = "UPLOAD_DIR @ stored_path env ''pre_op'' pre_op_image"
  let ?D = "UPLOAD_DIR @ stored_path env ''during_op'' during_op_image"
  from analyze_occlusion_fails [OF mk bad, of dumps pre_op_image during_op_image patient_id w]
  obtain e w1 where
    eq: "analyze_occlusion dumps env pre_op_image during_op_image patient_id w
           = cleanup env ?P ?D e w1"
    and early: "pre_op_io env \<noteq> WriteOk \<or> during_op_io env \<noteq> WriteOk
                  \<or> result_io env \<noteq> WriteOk
                \<longrightarrow> scans_db w1 = scans_db w
                    \<and> files w1 ''scans_db.json'' = files w ''scans_db.json''"
    by blast
  from eq run have cl: "cleanup env ?P ?D e w1 = (res, w')" by simp
  then have r: "res = fst (cleanup env ?P ?D e w1)"
    and w': "w' = snd (cleanup env ?P ?D e w1)" by simp_all
  have np: "''scans_db.json'' \<noteq> path_str ?P" and nd: "''scans_db.json'' \<noteq> path_str ?D"
    using upload_file_path_not_snapshot [of env "''pre_op''" pre_op_image]
      upload_file_path_not_snapshot [of env "''during_op''" during_op_image]
    by (auto simp: upload_file_path_def)
  from r cleanup_Inl [of env ?P ?D e w1] have c1: "\<exists>e. res = Inl e" by simp
  have c2: "unlink_pre_op_io env = None \<and> unlink_during_op_io env = None
         \<longrightarrow> (\<exists>e. res = Inl (analysis_error e))
             \<and> files w' (upload_file_path env ''pre_op'' pre_op_image) = None
             \<and> files w' (upload_file_path env ''during_op'' during_op_image) = None"
  proof
    assume u: "unlink_pre_op_io env = None \<and> unlink_during_op_io env = None"
    then have "cleanup env ?P ?D e w1
        = (Inl (analysis_error e), w1\<lparr>files := (files w1)(path_str ?P := None, path_str ?D := None)\<rparr>)"
      by (simp add: cleanup_ok)
    with r w' show "(\<exists>e. res = Inl (analysis_error e))
             \<and> files w' (upload_file_path env ''pre_op'' pre_op_image) = None
             \<and> files w' (upload_file_path env ''during_op'' during_op_image) = None"
      by (auto simp: upload_file_path_def)
  qed
  have c3: "pre_op_io env \<noteq> WriteOk \<or> during_op_io env \<noteq> WriteOk \<or> result_io env \<noteq> WriteOk
         \<longrightarrow> scans_db w' = scans_db w
             \<and> get_scans (scans_db w') None = get_scans (scans_db w) None
             \<and> files w' ''scans_db.json'' = files w ''scans_db.json''"
  proof
    assume "pre_op_io env \<noteq> WriteOk \<or> during_op_io env \<noteq> WriteOk \<or> result_io env \<noteq> WriteOk"
    with early have db: "scans_db w1 = scans_db w"
      and fs: "files w1 ''scans_db.json'' = files w ''scans_db.json''" by blast+
    from w' db have "scans_db w' = scans_db w" by (simp add: cleanup_scans_db)
    moreover from w' fs have "files w' ''scans_db.json'' = files w ''scans_db.json''"
      by (simp add: cleanup_files_other [OF np nd])
    ultimately show "scans_db w' = scans_db w
             \<and> get_scans (scans_db w') None = get_scans (scans_db w) None
             \<and> files w' ''scans_db.json'' = files w ''scans_db.json''"
      by simp
  qed
  from c1 c2 c3 show ?thesis by blast
qed

theorem create_failure_cleanup_witness:
  "(let env = \<lparr>uuid4 = ''u1'', utc_now = ''t'', mkdir_io = None, pre_op_io = WriteOk,
                 during_op_io = WriteFails 1 ''full'', result_io = WriteOk, db_io = WriteOk,
                 unlink_pre_op_io = None, unlink_during_op_io = None\<rparr>;
        pre = \<lparr>filename = Some ''a.png'', content = ''xx''\<rparr>;
        during = \<lparr>filename = Some ''b.png'', content = ''yy''\<rparr>;
        w = \<lparr>files = [''scans_db.json'' \<mapsto> ''[]''], scans_db = []\<rparr>;
        res = analyze_occlusion (\<lambda>v. ''[b]'') env pre during ''P1'' w
    in mkdir_io env = None
       \<and> during_op_io env \<noteq> WriteOk
       \<and> unlink_pre_op_io env = None
       \<and> unlink_during_op_io env = None
       \<and> (\<exists>e. fst res = Inl (analysis_error e))
       \<and> files (snd res) (upload_file_path env ''pre_op'' pre) = None
       \<and> files (snd res) (upload_file_path env ''during_op'' during) = None
       \<and> scans_db (snd res) = []
       \<and> get_scans (scans_db (snd res)) None = []
       \<and> files (snd res) ''scans_db.json'' = Some ''[]'')"
proof -
  let ?env = "\<lparr>uuid4 = ''u1'', utc_now = ''t'', mkdir_io = None, pre_op_io = WriteOk,
                 during_op_io = WriteFails 1 ''full'', result_io = WriteOk, db_io = WriteOk,
                 unlink_pre_op_io = None, unlink_during_op_io = None\<rparr>"
  let ?pre = "\<lparr>filename = Some ''a.png'', content = ''xx''\<rparr>"
  let ?during = "\<lparr>filename = Some ''b.png'', content = ''yy''\<rparr>"
  let ?w = "\<lparr>files = [''scans_db.json'' \<mapsto> ''[]''], scans_db = []\<rparr>"
  let ?D = "\<lambda>v::json. ''[b]''"
  obtain r w' where run: "analyze_occlusion ?D ?env ?pre ?during ''P1'' ?w = (r, w')"
    by (cases "analyze_occlusion ?D ?env ?pre ?during ''P1'' ?w")
  have mk: "mkdir_io ?env = None" by simp
  have bad: "pre_op_io ?env \<noteq> WriteOk \<or> during_op_io ?env \<noteq> WriteOk
              \<or> result_io ?env \<noteq> WriteOk \<or> db_io ?env \<noteq> WriteOk" by simp
  from create_failure_cleanup [OF mk bad run]
  have "(\<exists>e. r = Inl (analysis_error e))
       \<and> files w' (upload_file_path ?env ''pre_op'' ?pre) = None
       \<and> files w' (upload_file_path ?env ''during_op'' ?during) = None
       \<and> scans_db w' = []
       \<and> get_scans (scans_db w') None = []
       \<and> files w' ''scans_db.json'' = Some ''[]''"
    by (simp add: get_scans_def)
  with run show ?thesis by (simp add: Let_def get_scans_def)
qed

text \<open>
  C8, as stated, fails: nothing in \<open>analyze_occlusion\<close> looks at the length of an
  upload. With an empty first stream and no failing file operation the request
  succeeds, the empty file is on disk and the record is listed.
\<close>

theorem create_empty_upload_counterexample:
  "(let env = \<lparr>uuid4 = ''u1'', utc_now = ''t'', mkdir_io = None, pre_op_io = WriteOk,
                 during_op_io = WriteOk, result_io = WriteOk, db_io = WriteOk,
                 unlink_pre_op_io = None, unlink_during_op_io = None\<rparr>;
        pre = \<lparr>filename = Some ''a.png'', content = []\<rparr>;
        during = \<lparr>filename = Some ''b.png'', content = ''y''\<rparr>;
        res = analyze_occlusion (\<lambda>v. ''[]'') env pre during ''P1''
                \<lparr>files = Map.empty, scans_db = []\<rparr>
    in fst res = Inr (analysis_results ''u1'')
       \<and> files (snd res) ''uploads/u1/pre_op.png'' = Some []
       \<and> get_scans (scans_db (snd res)) None
           = [scan_record ''u1'' ''P1'' ''u1/pre_op.png'' ''u1/during_op.png''
                ''u1/analysis_results.json'' ''t''])"
  by (simp add: Let_def analyze_occlusion_steps save_scan_to_db_def dump_scans_def
        upload_file_path_def stored_path_def UPLOAD_DIR_def
        upload_ext_def splitext_def splitext_loop.simps new_record_def get_scans_def)

text \<open>
  C8, amended: for every create request in which an uploaded source stream is empty,
  the upload-writing step raises no validation error: when no file operation fails, the
  request succeeds, each upload file holds exactly the bytes of its stream (none, for
  the empty one) and the record is appended.
\<close>

theorem create_empty_upload_succeeds:
  assumes empty: "content pre_op_image = [] \<or> content during_op_image = []"
    and ok: "mkdir_io env = None" "pre_op_io env = WriteOk" "during_op_io env = WriteOk"
      "result_io env = WriteOk" "db_io env = WriteOk"
  shows "fst (analyze_occlusion dumps env pre_op_image during_op_image patient_id w)
           = Inr (analysis_results (uuid4 env))
    \<and> files (snd (analyze_occlusion dumps env pre_op_image during_op_image patient_id w))
           (upload_file_path env ''pre_op'' pre_op_image) = Some (content pre_op_image)
    \<and> files (snd (analyze_occlusion dumps env pre_op_image during_op_image patient_id w))
           (upload_file_path env ''during_op'' during_op_image) = Some (content during_op_image)
    \<and> scans_db (snd (analyze_occlusion dumps env pre_op_image during_op_image patient_id w))
           = scans_db w @ [new_record env pre_op_image during_op_image patient_id]"
  using analyze_occlusion_ok_files [OF ok, of dumps pre_op_image during_op_image patient_id w]
  by (simp add: analyze_occlusion_ok [OF ok])

theorem create_empty_upload_succeeds_witness:
  "(let env = \<lparr>uuid4 = ''u1'', utc_now = ''t'', mkdir_io = None, pre_op_io = WriteOk,
                 during_op_io = WriteOk, result_io = WriteOk, db_io = WriteOk,
                 unlink_pre_op_io = None, unlink_during_op_io = None\<rparr>;
        pre = \<lparr>filename = Some ''a.png'', content = ''x''\<rparr>;
        during = \<lparr>filename = None, content = []\<rparr>;
        res = analyze_occlusion (\<lambda>v. ''[]'') env pre during ''P1''
                \<lparr>files = Map.empty, scans_db = []\<rparr>
    in content during = []
       \<and> mkdir_io env = None \<and> pre_op_io env = WriteOk \<and> during_op_io env = WriteOk
       \<and> result_io env = WriteOk \<and> db_io env = WriteOk
       \<and> fst res = Inr (analysis_results ''u1'')
       \<and> files (snd res) (upload_file_path env ''pre_op'' pre) = Some ''x''
       \<and> files (snd res) (upload_file_path env ''during_op'' during) = Some []
       \<and> scans_db (snd res) = [new_record env pre during ''P1''])"
proof -
  let ?env = "\<lparr>uuid4 = ''u1'', utc_now = ''t'', mkdir_io = None, pre_op_io = WriteOk,
                 during_op_io = WriteOk, result_io = WriteOk, db_io = WriteOk,
                 unlink_pre_op_io = None, unlink_during_op_io = None\<rparr>"
  let ?pre = "\<lparr>filename = Some ''a.png'', content = ''x''\<rparr>"
  let ?during = "\<lparr>filename = None, content = []\<rparr>"
  have empty: "content ?pre = [] \<or> content ?during = []" by simp
  have ok: "mkdir_io ?env = None" "pre_op_io ?env = WriteOk" "during_op_io ?env = WriteOk"
      "result_io ?env = WriteOk" "db_io ?env = WriteOk" by simp_all
  from create_empty_upload_succeeds [OF empty ok, of "\<lambda>v. ''[]''" "''P1''"
      "\<lparr>files = Map.empty, scans_db = []\<rparr>"]
  show ?thesis by (simp add: Let_def)
qed

text \<open>
  C9, as stated, fails: the default \<^verbatim>\<open>.jpg\<close> is taken only when the file name is
  missing or empty. A name without an extension, here \<^verbatim>\<open>photo\<close>, gives the empty
  extension, and the upload is stored as \<^verbatim>\<open>pre_op\<close>, not as \<^verbatim>\<open>pre_op.jpg\<close>.
\<close>

theorem upload_no_extension_counterexample:
  "(let env = \<lparr>uuid4 = ''u1'', utc_now = ''t'', mkdir_io = None, pre_op_io = WriteOk,
                 during_op_io = WriteOk, result_io = WriteOk, db_io = WriteOk,
                 unlink_pre_op_io = None, unlink_during_op_io = None\<rparr>;
        pre = \<lparr>filename = Some ''photo'', content = ''x''\<rparr>;
        during = \<lparr>filename = Some ''b.png'', content = ''y''\<rparr>;
        res = analyze_occlusion (\<lambda>v. ''[]'') env pre during ''P1''
                \<lparr>files = Map.empty, scans_db = []\<rparr>
    in fst res = Inr (analysis_results ''u1'')
       \<and> upload_ext pre = []
       \<and> py_get (last (scans_db (snd res))) ''pre_op_path'' = JStr ''u1/pre_op''
       \<and> files (snd res) ''uploads/u1/pre_op'' = Some ''x''
       \<and> files (snd res) ''uploads/u1/pre_op.jpg'' = None)"
  by (simp add: Let_def analyze_occlusion_steps save_scan_to_db_def dump_scans_def
        upload_file_path_def stored_path_def UPLOAD_DIR_def scan_record_def py_get_def
        upload_ext_def splitext_def splitext_loop.simps new_record_def)

text \<open>
  C9, amended: for every upload of a successful create, the stored file name is the
  logical name (\<^verbatim>\<open>pre_op\<close>, \<^verbatim>\<open>during_op\<close>) followed by the extension that
  \<^verbatim>\<open>os.path.splitext\<close> gives for the original file name: a suffix of that name that
  is empty or starts at its last dot and holds no separator. The fixed \<^verbatim>\<open>.jpg\<close> is
  used only when the original file name is absent or empty. The path field of the
  record is the scan identifier, a separator and the file name, relative to the upload
  directory, and the file of that name under \<^verbatim>\<open>uploads\<close> holds the upload.
\<close>

theorem create_upload_names:
  assumes run: "analyze_occlusion dumps env pre_op_image during_op_image patient_id w = (Inr r, w')"
  shows "scans_db w' = scans_db w @ [new_record env pre_op_image during_op_image patient_id]
    \<and> py_get (new_record env pre_op_image during_op_image patient_id) ''pre_op_path''
        = JStr (uuid4 env @ ''/pre_op'' @ upload_ext pre_op_image)
    \<and> py_get (new_record env pre_op_image during_op_image patient_id) ''during_op_path''
        = JStr (uuid4 env @ ''/during_op'' @ upload_ext during_op_image)
    \<and> files w' (''uploads/'' @ uuid4 env @ ''/pre_op'' @ upload_ext pre_op_image)
        = Some (content pre_op_image)
    \<and> files w' (''uploads/'' @ uuid4 env @ ''/during_op'' @ upload_ext during_op_image)
        = Some (content during_op_image)
    \<and> (\<forall>u. (filename u = None \<or> filename u = Some [] \<longrightarrow> upload_ext u = ''.jpg'')
           \<and> (\<forall>n. filename u = Some n \<and> n \<noteq> []
                  \<longrightarrow> upload_ext u = snd (splitext n)
                      \<and> (\<exists>root. n = root @ upload_ext u)
                      \<and> (upload_ext u = []
                          \<or> (hd (upload_ext u) = CHR ''.''
                              \<and> CHR ''.'' \<notin> set (tl (upload_ext u))
                              \<and> CHR ''/'' \<notin> set (upload_ext u)))))"
proof -
  from analyze_occlusion_Inr [OF run]
  have ok: "mkdir_io env = None" "pre_op_io env = WriteOk" "during_op_io env = WriteOk"
    "result_io env = WriteOk" "db_io env = WriteOk" by blast+
  from run analyze_occlusion_ok [OF ok, of dumps pre_op_image during_op_image patient_id w]
  have db: "scans_db w' = scans_db w @ [new_record env pre_op_image during_op_image patient_id]"
    by auto
  from run have w': "w' = snd (analyze_occlusion dumps env pre_op_image during_op_image patient_id w)"
    by simp
  from analyze_occlusion_ok_files [OF ok, of dumps pre_op_image during_op_image patient_id w] w'
  have f1: "files w' (''uploads/'' @ uuid4 env @ ''/pre_op'' @ upload_ext pre_op_image)
              = Some (content pre_op_image)"
    and f2: "files w' (''uploads/'' @ uuid4 env @ ''/during_op'' @ upload_ext during_op_image)
              = Some (content during_op_image)"
    by (simp_all add: upload_file_path_str)
  have p1: "py_get (new_record env pre_op_image during_op_image patient_id) ''pre_op_path''
        = JStr (uuid4 env @ ''/pre_op'' @ upload_ext pre_op_image)"
    and p2: "py_get (new_record env pre_op_image during_op_image patient_id) ''during_op_path''
        = JStr (uuid4 env @ ''/during_op'' @ upload_ext during_op_image)"
    by (simp_all add: new_record_def scan_record_def py_get_def stored_path_def)
  from db p1 p2 f1 f2 upload_ext_cases show ?thesis by blast
qed

theorem create_upload_names_witness:
  "(let env = \<lparr>uuid4 = ''u1'', utc_now = ''t'', mkdir_io = None, pre_op_io = WriteOk,
                 during_op_io = WriteOk, result_io = WriteOk, db_io = WriteOk,
                 unlink_pre_op_io = None, unlink_during_op_io = None\<rparr>;
        pre = \<lparr>filename = Some ''scan.v2.png'', content = ''x''\<rparr>;
        during = \<lparr>filename = None, content = ''y''\<rparr>;
        res = analyze_occlusion (\<lambda>v. ''[]'') env pre during ''P1''
                \<lparr>files = Map.empty, scans_db = []\<rparr>
    in fst res = Inr (analysis_results ''u1'')
       \<and> filename pre = Some ''scan.v2.png''
       \<and> upload_ext pre = ''.png''
       \<and> filename during = None
       \<and> upload_ext during = ''.jpg''
       \<and> scans_db (snd res) = [new_record env pre during ''P1'']
       \<and> py_get (new_record env pre during ''P1'') ''pre_op_path'' = JStr ''u1/pre_op.png''
       \<and> py_get (new_record env pre during ''P1'') ''during_op_path''
           = JStr ''u1/during_op.jpg''
       \<and> files (snd res) ''uploads/u1/pre_op.png'' = Some ''x''
       \<and> files (snd res) ''uploads/u1/during_op.jpg'' = Some ''y'')"
proof -
  let ?env = "\<lparr>uuid4 = ''u1'', utc_now = ''t'', mkdir_io = None, pre_op_io = WriteOk,
                 during_op_io = WriteOk, result_io = WriteOk, db_io = WriteOk,
                 unlink_pre_op_io = None, unlink_during_op_io = None\<rparr>"
  let ?pre = "\<lparr>filename = Some ''scan.v2.png'', content = ''x''\<rparr>"
  let ?during = "\<lparr>filename = None, content = ''y''\<rparr>"
  let ?w = "\<lparr>files = Map.empty, scans_db = []\<rparr>"
  let ?D = "\<lambda>v::json. ''[]''"
  have ok: "mkdir_io ?env = None" "pre_op_io ?env = WriteOk" "during_op_io ?env = WriteOk"
      "result_io ?env = WriteOk" "db_io ?env = WriteOk" by simp_all
  obtain w' where run: "analyze_occlusion ?D ?env ?pre ?during ''P1'' ?w
      = (Inr (analysis_results ''u1''), w')"
    using analyze_occlusion_ok [OF ok, of ?D ?pre ?during "''P1''" ?w] by simp
  have e1: "upload_ext ?pre = ''.png''"
    by (simp add: upload_ext_def splitext_def splitext_loop.simps)
  have e2: "upload_ext ?during = ''.jpg''"
    by (simp add: upload_ext_def)
  from create_upload_names [OF run] e1 e2 run show ?thesis
    by (simp add: Let_def)
qed

section \<open>Properties of lookup\<close>

text \<open>
  C10: for every identifier that a record of the collection has, \<open>get(id)\<close> returns a
  new object, a copy of the first such record with the fields \<open>pre_op_url\<close>,
  \<open>during_op_url\<close> and \<open>result_url\<close> set to the upload URLs of its three path fields
  and every other field as in the record, and every object of the collection is after
  the call what it was before. The record is one of the data model: it has the three
  path fields, as every record that \<open>analyze_occlusion\<close> makes has (\<open>new_record_paths\<close>).
  The value returned is the one \<open>get_scan\<close> computes on the collection read as values.
\<close>

theorem get_scan_copy:
  assumes valid: "\<forall>r'\<in>set refs. r' < length h"
    and found: "List.find (\<lambda>r'. py_get (h ! r') ''id'' = JStr scan_id) refs = Some r"
    and pre: "map_of (h ! r) ''pre_op_path'' = Some p"
    and during: "map_of (h ! r) ''during_op_path'' = Some q"
    and result: "map_of (h ! r) ''result_path'' = Some s"
  shows "\<exists>h'. get_scan_store str_of h refs scan_id = (Inr (length h), h')
      \<and> length h \<notin> set refs
      \<and> (\<forall>r'\<in>set refs. h' ! r' = h ! r')
      \<and> h' ! length h =
           AList.update ''result_url'' (upload_url str_of s)
             (AList.update ''during_op_url'' (upload_url str_of q)
               (AList.update ''pre_op_url'' (upload_url str_of p) (h ! r)))
      \<and> map_of (h' ! length h) ''pre_op_url'' = Some (upload_url str_of p)
      \<and> map_of (h' ! length h) ''during_op_url'' = Some (upload_url str_of q)
      \<and> map_of (h' ! length h) ''result_url'' = Some (upload_url str_of s)
      \<and> (\<forall>k. k \<noteq> ''pre_op_url'' \<and> k \<noteq> ''during_op_url'' \<and> k \<noteq> ''result_url''
             \<longrightarrow> map_of (h' ! length h) k = map_of (h ! r) k)
      \<and> get_scan str_of (map ((!) h) refs) scan_id = Inr (h' ! length h)"
proof -
  let ?d = "AList.update ''result_url'' (upload_url str_of s)
             (AList.update ''during_op_url'' (upload_url str_of q)
               (AList.update ''pre_op_url'' (upload_url str_of p) (h ! r)))"
  have urls: "add_urls str_of (h ! r) = Inr ?d"
    by (rule add_urls_paths [OF pre during result])
  from add_urls_store_copy [of str_of h "h ! r"] urls
  have store: "add_urls_store str_of (length h) (h @ [h ! r]) = (Inr (), h @ [?d])"
    by auto
  from get_scan_store_found [OF found, of str_of] store urls
  have run: "get_scan_store str_of h refs scan_id = (Inr (length h), h @ [?d])"
    and val: "get_scan str_of (map ((!) h) refs) scan_id = Inr ?d"
    by simp_all
  from valid have fresh: "length h \<notin> set refs" by auto
  from valid have frame: "\<forall>r'\<in>set refs. (h @ [?d]) ! r' = h ! r'"
    by (simp add: nth_append)
  have at: "(h @ [?d]) ! length h = ?d" by simp
  have m1: "map_of ?d ''pre_op_url'' = Some (upload_url str_of p)"
    and m2: "map_of ?d ''during_op_url'' = Some (upload_url str_of q)"
    and m3: "map_of ?d ''result_url'' = Some (upload_url str_of s)"
    by (simp_all add: update_conv')
  have rest: "\<forall>k. k \<noteq> ''pre_op_url'' \<and> k \<noteq> ''during_op_url'' \<and> k \<noteq> ''result_url''
             \<longrightarrow> map_of ?d k = map_of (h ! r) k"
    by (simp add: update_conv')
  from run fresh frame m1 m2 m3 rest val show ?thesis
    by (intro exI [of _ "h @ [?d]"]) (simp only: nth_append_length, blast)
qed

theorem get_scan_copy_witness:
  "(let scan = [(''id'', JStr ''a''), (''patient_id'', JStr ''P1''),
                (''pre_op_path'', JStr ''a/pre_op.png''),
                (''during_op_path'', JStr ''a/during_op.png''),
                (''result_path'', JStr ''a/analysis_results.json'')];
        h = [[(''id'', JStr ''b'')], scan];
        res = get_scan_store (\<lambda>v. ''?'') h [0, 1] ''a''
    in List.find (\<lambda>r. py_get (h ! r) ''id'' = JStr ''a'') [0, 1] = Some 1
       \<and> fst res = Inr 2
       \<and> snd res ! 0 = h ! 0
       \<and> snd res ! 1 = scan
       \<and> snd res ! 2 =
            scan @ [(''pre_op_url'', JStr ''http://your-server-ip:8000/uploads/a/pre_op.png''),
                    (''during_op_url'', JStr ''http://your-server-ip:8000/uploads/a/during_op.png''),
                    (''result_url'',
                     JStr ''http://your-server-ip:8000/uploads/a/analysis_results.json'')])"
proof -
  let ?scan = "[(''id'', JStr ''a''), (''patient_id'', JStr ''P1''),
                (''pre_op_path'', JStr ''a/pre_op.png''),
                (''during_op_path'', JStr ''a/during_op.png''),
                (''result_path'', JStr ''a/analysis_results.json'')]"
  let ?h = "[[(''id'', JStr ''b'')], ?scan]"
  have valid: "\<forall>r'\<in>set [0, 1]. r' < length ?h" by simp
  have found: "List.find (\<lambda>r'. py_get (?h ! r') ''id'' = JStr ''a'') [0, 1] = Some 1"
    by (simp add: py_get_def)
  have pre: "map_of (?h ! 1) ''pre_op_path'' = Some (JStr ''a/pre_op.png'')"
    and during: "map_of (?h ! 1) ''during_op_path'' = Some (JStr ''a/during_op.png'')"
    and result: "map_of (?h ! 1) ''result_path'' = Some (JStr ''a/analysis_results.json'')"
    by simp_all
  from get_scan_copy [OF valid found pre during result, of "\<lambda>v. ''?''"]
  obtain h' where run: "get_scan_store (\<lambda>v. ''?'') ?h [0, 1] ''a'' = (Inr (length ?h), h')"
    and frame: "\<forall>r'\<in>set [0, 1]. h' ! r' = ?h ! r'"
    and at: "h' ! length ?h =
           AList.update ''result_url'' (upload_url (\<lambda>v. ''?'') (JStr ''a/analysis_results.json''))
             (AList.update ''during_op_url'' (upload_url (\<lambda>v. ''?'') (JStr ''a/during_op.png''))
               (AList.update ''pre_op_url'' (upload_url (\<lambda>v. ''?'') (JStr ''a/pre_op.png''))
                 (?h ! 1)))"
    by blast
  from frame have f0: "h' ! 0 = ?h ! 0" and f1: "h' ! 1 = ?h ! 1" by simp_all
  from at have at2: "h' ! 2 = ?scan @
      [(''pre_op_url'', JStr ''http://your-server-ip:8000/uploads/a/pre_op.png''),
       (''during_op_url'', JStr ''http://your-server-ip:8000/uploads/a/during_op.png''),
       (''result_url'', JStr ''http://your-server-ip:8000/uploads/a/analysis_results.json'')]"
    by (simp add: upload_url_str base_url_def numeral_2_eq_2)
  from found run f0 f1 at2 show ?thesis
    by (simp add: Let_def)
qed

end
